theory Spec2Isabelle
  imports Main "HOL-Library.Sublist"
begin

text \<open>
  A shallow embedding of the analysis and synthesis core of the codecontext command-line
  tool: the file describer, the structural source analyzer, the directory analyzer,
  the change-driven refresh and the project-wide context view, with the properties the
  specification states about them.
\<close>

section \<open>JavaScript string primitives\<close>

text \<open>
  Strings are lists of 8-bit characters, which is enough for ASCII text. The helpers
  below follow the semantics of the JavaScript \<open>String.prototype\<close> methods the sources
  call on such text; the case mappings change the letters \<open>A\<close> to \<open>Z\<close> and \<open>a\<close> to \<open>z\<close>
  only, and the case mappings of letters outside ASCII are not part of the model.
\<close>

definition upperChars :: string where
  "upperChars = ''ABCDEFGHIJKLMNOPQRSTUVWXYZ''"

definition lowerChars :: string where
  "lowerChars = ''abcdefghijklmnopqrstuvwxyz''"

definition toLowerChar :: "char \<Rightarrow> char" where
  "toLowerChar c = (case map_of (zip upperChars lowerChars) c of None \<Rightarrow> c | Some d \<Rightarrow> d)"

definition toUpperChar :: "char \<Rightarrow> char" where
  "toUpperChar c = (case map_of (zip lowerChars upperChars) c of None \<Rightarrow> c | Some d \<Rightarrow> d)"

definition toLowerCase :: "string \<Rightarrow> string" where
  "toLowerCase s = map toLowerChar s"

definition toUpperCase :: "string \<Rightarrow> string" where
  "toUpperCase s = map toUpperChar s"

definition startsWith :: "string \<Rightarrow> string \<Rightarrow> bool" where
  "startsWith s p = (take (length p) s = p)"

definition endsWith :: "string \<Rightarrow> string \<Rightarrow> bool" where
  "endsWith s p = (length p \<le> length s \<and> drop (length s - length p) s = p)"

fun str_includes :: "string \<Rightarrow> string \<Rightarrow> bool" where
  "str_includes [] sub = (sub = [])"
| "str_includes (c # cs) sub = (startsWith (c # cs) sub \<or> str_includes cs sub)"

text \<open>\<open>s.split(sep)\<close> for a one-character separator: \<open>''.split(',')\<close> is \<open>['']\<close>.\<close>

fun splitOn :: "char \<Rightarrow> string \<Rightarrow> string list" where
  "splitOn sep [] = [[]]"
| "splitOn sep (c # cs) =
     (if c = sep then [] # splitOn sep cs
      else (case splitOn sep cs of [] \<Rightarrow> [[c]] | w # ws \<Rightarrow> (c # w) # ws))"

text \<open>\<open>xs.join(sep)\<close>.\<close>

fun joinWith :: "string \<Rightarrow> string list \<Rightarrow> string" where
  "joinWith sep [] = []"
| "joinWith sep [x] = x"
| "joinWith sep (x # y # ys) = x @ sep @ joinWith sep (y # ys)"

definition isSpace :: "char \<Rightarrow> bool" where
  "isSpace c = (c \<in> set [CHR 0x20, CHR 0x09, CHR 0x0A, CHR 0x0B, CHR 0x0C, CHR 0x0D])"

definition trim :: "string \<Rightarrow> string" where
  "trim s = rev (dropWhile isSpace (rev (dropWhile isSpace s)))"

text \<open>\<open>s.split(/\s+/)[0]\<close> on a trimmed string: the text before the first whitespace.\<close>

definition firstToken :: "string \<Rightarrow> string" where
  "firstToken s = takeWhile (\<lambda>c. \<not> isSpace c) s"

text \<open>\<open>s.replace(pat, rep)\<close> with a string pattern: the first occurrence only.\<close>

fun replaceFirst :: "string \<Rightarrow> string \<Rightarrow> string \<Rightarrow> string" where
  "replaceFirst pat rep [] = (if pat = [] then rep else [])"
| "replaceFirst pat rep (c # cs) =
     (if startsWith (c # cs) pat then rep @ drop (length pat) (c # cs)
      else c # replaceFirst pat rep cs)"

definition digitChar :: "nat \<Rightarrow> char" where
  "digitChar d = (''0123456789'' ! d)"

text \<open>Decimal rendering of a non-negative integer inside a template literal.\<close>

function numToString :: "nat \<Rightarrow> string" where
  "numToString n = (if n < 10 then [digitChar n] else numToString (n div 10) @ [digitChar (n mod 10)])"
  by pat_completeness auto
termination
  by (relation "measure (\<lambda>n. n)") auto

declare numToString.simps [simp del]

text \<open>
  \<open>xs.sort(cmp)\<close>: the engines the package supports (Node 16 and later) sort stably.
  An element goes in front of the first element it does not compare greater than.
\<close>

fun sortInsert :: "('a \<Rightarrow> 'a \<Rightarrow> int) \<Rightarrow> 'a \<Rightarrow> 'a list \<Rightarrow> 'a list" where
  "sortInsert cmp x [] = [x]"
| "sortInsert cmp x (y # ys) = (if cmp x y \<le> 0 then x # y # ys else y # sortInsert cmp x ys)"

fun jsSort :: "('a \<Rightarrow> 'a \<Rightarrow> int) \<Rightarrow> 'a list \<Rightarrow> 'a list" where
  "jsSort cmp [] = []"
| "jsSort cmp (x # xs) = sortInsert cmp x (jsSort cmp xs)"

text \<open>\<open>new Set(xs)\<close> iterated: the first occurrence of each value, in insertion order.\<close>

fun jsSet :: "'a list \<Rightarrow> 'a list" where
  "jsSet [] = []"
| "jsSet (x # xs) = x # filter (\<lambda>y. y \<noteq> x) (jsSet xs)"

text \<open>
  What \<open>table[key]\<close> gives on an object literal whose own properties are texts: the
  text of an own key, or else the member of that name every object inherits from
  \<open>Object.prototype\<close> (a function; the prototype object itself for \<open>__proto__\<close>), or
  else \<open>undefined\<close>, here \<open>None\<close>.
\<close>

datatype jsValue = Text string | Inherited string

definition objectPrototypeMembers :: "string list" where
  "objectPrototypeMembers =
     [''constructor'', ''__defineGetter__'', ''__defineSetter__'', ''hasOwnProperty'',
      ''__lookupGetter__'', ''__lookupSetter__'', ''isPrototypeOf'', ''propertyIsEnumerable'',
      ''toString'', ''valueOf'', ''__proto__'', ''toLocaleString'']"

definition propertyOf :: "(string \<times> string) list \<Rightarrow> string \<Rightarrow> jsValue option" where
  "propertyOf table key =
     (case map_of table key of
        Some v \<Rightarrow> Some (Text v)
      | None \<Rightarrow> if key \<in> set objectPrototypeMembers then Some (Inherited key) else None)"

text \<open>Truthiness: the empty text is falsy, functions and objects are truthy.\<close>

definition truthy :: "jsValue \<Rightarrow> bool" where
  "truthy v = (case v of Text s \<Rightarrow> s \<noteq> [] | Inherited m \<Rightarrow> True)"

text \<open>\<open>a || b\<close> for a text \<open>a\<close>.\<close>

definition textOr :: "string \<Rightarrow> jsValue \<Rightarrow> jsValue" where
  "textOr a b = (if a \<noteq> [] then Text a else b)"

text \<open>
  The text a value becomes inside a template literal: a native function prints as
  its source placeholder, the prototype object as \<open>[object Object]\<close>.
\<close>

definition toText :: "jsValue \<Rightarrow> string" where
  "toText v =
     (case v of
        Text s \<Rightarrow> s
      | Inherited m \<Rightarrow>
          if m = ''__proto__'' then ''[object Object]''
          else ''function '' @ (if m = ''constructor'' then ''Object'' else m) @ ''() { [native code] }'')"


section \<open>The POSIX \<open>path\<close> module of Node\<close>

definition slash :: char where
  "slash = CHR ''/''"

definition dot :: char where
  "dot = CHR ''.''"

text \<open>\<open>path.basename(p)\<close>: trailing separators dropped, then the text after the last separator.\<close>

definition path_basename :: "string \<Rightarrow> string" where
  "path_basename p = rev (takeWhile (\<lambda>c. c \<noteq> slash) (dropWhile (\<lambda>c. c = slash) (rev p)))"

text \<open>
  \<open>path.basename(p, suffix)\<close>, as the sources use it: on a name without separators
  and with the name's own extension as the suffix.
\<close>

definition path_basename_ext :: "string \<Rightarrow> string \<Rightarrow> string" where
  "path_basename_ext p ext =
     (let b = path_basename p in
      if ext \<noteq> [] \<and> length ext \<le> length p then
        (if ext = p then []
         else if endsWith b ext \<and> b \<noteq> ext then take (length b - length ext) b
         else b)
      else b)"

text \<open>
  \<open>path.extname(p)\<close>: from the last dot of the base name to its end; empty when the
  base name has no dot, starts with its only dot, or is \<open>..\<close>.
\<close>

definition path_extname :: "string \<Rightarrow> string" where
  "path_extname p =
     (let b = path_basename p; rb = rev b in
      if dot \<notin> set b then []
      else if tl (dropWhile (\<lambda>c. c \<noteq> dot) rb) = [] then []
      else if b = [dot, dot] then []
      else dot # rev (takeWhile (\<lambda>c. c \<noteq> dot) rb))"

text \<open>
  \<open>path.dirname(p)\<close>: scanning from the end down to index 1, skip trailing separators,
  skip the last component, and cut at the separator in front of it.
\<close>

definition path_dirname :: "string \<Rightarrow> string" where
  "path_dirname p =
     (case p of
        [] \<Rightarrow> [dot]
      | c # cs \<Rightarrow>
          (let r = dropWhile (\<lambda>x. x \<noteq> slash) (dropWhile (\<lambda>x. x = slash) (rev cs)) in
           if r = [] then (if c = slash then [slash] else [dot])
           else if c = slash \<and> tl r = [] then [slash, slash]
           else c # rev (tl r)))"

text \<open>One segment of \<open>normalizeString\<close>: the stack of kept segments, oldest first.\<close>

definition normStep :: "bool \<Rightarrow> string list \<Rightarrow> string \<Rightarrow> string list" where
  "normStep allowAboveRoot st seg =
     (if seg = [] \<or> seg = [dot] then st
      else if seg = [dot, dot] then
        (if st \<noteq> [] \<and> last st \<noteq> [dot, dot] then butlast st
         else if allowAboveRoot then st @ [[dot, dot]]
         else st)
      else st @ [seg])"

definition normalizeString :: "string \<Rightarrow> bool \<Rightarrow> string" where
  "normalizeString p allowAboveRoot =
     joinWith [slash] (foldl (normStep allowAboveRoot) [] (splitOn slash p))"

definition path_normalize :: "string \<Rightarrow> string" where
  "path_normalize p =
     (if p = [] then [dot]
      else
        (let isAbsolute = (hd p = slash);
             trailingSeparator = (last p = slash);
             res = normalizeString p (\<not> isAbsolute)
         in if res = [] then
              (if isAbsolute then [slash] else if trailingSeparator then [dot, slash] else [dot])
            else
              (let res' = (if trailingSeparator then res @ [slash] else res)
               in if isAbsolute then slash # res' else res')))"

text \<open>\<open>path.join(a, b)\<close>: the non-empty arguments joined by a separator, normalised.\<close>

definition path_join :: "string \<Rightarrow> string \<Rightarrow> string" where
  "path_join a b =
     (let parts = filter (\<lambda>s. s \<noteq> []) [a, b]
      in if parts = [] then [dot] else path_normalize (joinWith [slash] parts))"


text \<open>
  The paths the analyzer is called with are absolute and normalised (they come from
  \<open>process.cwd()\<close>, \<open>path.join\<close> and \<open>path.resolve\<close>), and the names \<open>readdir\<close> returns
  are single path segments.
\<close>

definition simpleName :: "string \<Rightarrow> bool" where
  "simpleName n = (n \<noteq> [] \<and> slash \<notin> set n \<and> n \<noteq> [dot] \<and> n \<noteq> [dot, dot])"

definition canonicalDir :: "string \<Rightarrow> bool" where
  "canonicalDir d =
     (d \<noteq> [] \<and> hd d = slash \<and> path_normalize d = d \<and> (d = [slash] \<or> last d \<noteq> slash))"


section \<open>Types (src/types)\<close>

datatype mode = Quick | Smart | Deep

record CodeContextConfig =
  cfg_version :: string
  cfg_mode :: mode
  ignorePatterns :: "string list"
  analysisFocus :: "string list"
  outputFormat :: string
  integrations_git :: bool
  integrations_claude :: bool

record FileAnalysis =
  fa_path :: string
  fa_description :: jsValue
  importance :: int
  primaryFunctions :: "string list"
  lastModified :: nat

record Change =
  commit :: string
  ch_date :: string
  ch_description :: string
  impact :: string
  ch_files :: "string list"

datatype dependency_type = DepImport | DepExport | DepExternal

record Dependency =
  dep_name :: string
  dep_type :: dependency_type
  dep_from :: string
  dep_to :: string

record DirectoryAnalysis =
  da_path :: string
  purpose :: jsValue
  architecture :: string
  keyFiles :: "FileAnalysis list"
  recentChanges :: "Change list"
  improvements :: "string list"
  dependencies :: "Dependency list"


section \<open>The file system and version control, as the sources observe them\<close>

text \<open>
  The program reaches its environment through \<open>fs-extra\<close> and \<open>simple-git\<close>. A world
  answers each call the sources make; \<open>None\<close> stands for a call that throws.
  \<open>fs.readdir\<close> lists a directory in the order of the platform: \<open>placement\<close> is the
  position at which a directory with the given entries lists a new one.
\<close>

record stats =
  isFile :: bool
  isDirectory :: bool
  mtime :: nat

record commitEntry =
  hash :: string
  commit_date :: string
  message :: string
  author_name :: string
  author_email :: string

record statusResult =
  modified :: "string list"
  created :: "string list"
  renamed :: "(string \<times> string) list"

record world =
  readdir :: "string \<Rightarrow> string list option"
  stat :: "string \<Rightarrow> stats option"
  readFile :: "string \<Rightarrow> string option"
  writeDenied :: "string \<Rightarrow> bool"
  placement :: "string \<Rightarrow> string list \<Rightarrow> string \<Rightarrow> nat"
  gitLog :: "string \<Rightarrow> nat \<Rightarrow> commitEntry list option"
  gitStatus :: "string \<Rightarrow> statusResult option"

datatype error = ReaddirFailed string | StatFailed string | ReadFailed string | WriteFailed string
  | NotConfigured string | IgnoreFailed string

text \<open>\<open>fs.pathExists\<close> never throws: it answers whether the path can be reached.\<close>

definition pathExists :: "world \<Rightarrow> string \<Rightarrow> bool" where
  "pathExists w p = (stat w p \<noteq> None)"

text \<open>
  \<open>fs.writeFile(p, data)\<close> at time \<open>now\<close>: it throws when the path is not writable, names
  a directory, or has no readable parent directory; otherwise the file holds \<open>data\<close>, is a
  regular file modified at \<open>now\<close>, and is listed in its parent directory (a new entry
  is listed where the platform places it, the other entries keeping their order).
\<close>

definition insertAt :: "nat \<Rightarrow> 'a \<Rightarrow> 'a list \<Rightarrow> 'a list" where
  "insertAt k x xs = take k xs @ x # drop k xs"

definition writeFile :: "world \<Rightarrow> string \<Rightarrow> string \<Rightarrow> nat \<Rightarrow> error + world" where
  "writeFile w p data now =
     (if writeDenied w p then Inl (WriteFailed p)
      else if (case stat w p of Some st \<Rightarrow> isDirectory st | None \<Rightarrow> False) then Inl (WriteFailed p)
      else if stat w p = None \<and> readdir w (path_dirname p) = None then Inl (WriteFailed p)
      else
        Inr (w\<lparr>readdir :=
                 (case readdir w (path_dirname p) of
                    None \<Rightarrow> readdir w
                  | Some names \<Rightarrow>
                      (readdir w)(path_dirname p \<mapsto>
                         (if path_basename p \<in> set names then names
                          else insertAt (placement w (path_dirname p) names (path_basename p))
                                 (path_basename p) names))),
               readFile := (readFile w)(p \<mapsto> data),
               stat := (stat w)(p \<mapsto> \<lparr>isFile = True, isDirectory = False, mtime = now\<rparr>)\<rparr>))"


section \<open>The structural source analyzer (src/services/codeParser.ts)\<close>

datatype import_type = Named | Default | Namespace

record ImportInfo =
  imp_source :: string
  specifiers :: "string list"
  imp_type :: import_type

datatype export_type = ExpFunction | ExpClass | ExpInterface | ExpVariable | ExpType

record ExportInfo =
  exp_name :: string
  exp_type :: export_type
  isDefault :: bool

record FunctionInfo =
  fn_name :: string
  params :: "string list"
  isAsync :: bool
  fn_isExported :: bool

record ClassInfo =
  cls_name :: string
  methods :: "string list"
  cls_isExported :: bool

record InterfaceInfo =
  if_name :: string
  properties :: "string list"
  if_isExported :: bool

record ParsedFile =
  pf_imports :: "ImportInfo list"
  pf_exports :: "ExportInfo list"
  pf_functions :: "FunctionInfo list"
  pf_classes :: "ClassInfo list"
  pf_interfaces :: "InterfaceInfo list"
  mainPurpose :: string

text \<open>
  The regular-expression engine is JavaScript's own. Each field gives, for a text, the
  successive matches of one of the parser's patterns, as the capture groups the parser
  reads (\<open>None\<close> for a group that did not take part in the match).
\<close>

record regexEngine =
  importRegex :: "string \<Rightarrow> (string option \<times> string option \<times> string option \<times> string) list"
  defaultImportRegex :: "string \<Rightarrow> (string \<times> string) list"
  exportRegex :: "string \<Rightarrow> (string \<times> string) list"
  exportDefaultRegex :: "string \<Rightarrow> string list"
  functionRegex :: "string \<Rightarrow> (string \<times> string \<times> string) list"
  arrowFunctionRegex :: "string \<Rightarrow> (string \<times> string) list"
  classRegex :: "string \<Rightarrow> (string \<times> string \<times> string) list"
  methodRegex :: "string \<Rightarrow> string list"
  interfaceRegex :: "string \<Rightarrow> (string \<times> string \<times> string) list"
  propRegex :: "string \<Rightarrow> string list"

definition importOfMatch ::
  "string option \<times> string option \<times> string option \<times> string \<Rightarrow> ImportInfo list" where
  "importOfMatch m =
     (case m of (namespace, defaultImport, namedImports, source) \<Rightarrow>
        (case namespace of
           Some ns \<Rightarrow>
             [\<lparr>imp_source = source, specifiers = [replaceFirst ''* as '' [] ns], imp_type = Namespace\<rparr>]
         | None \<Rightarrow>
             (case defaultImport of
                Some d \<Rightarrow> [\<lparr>imp_source = source, specifiers = [d], imp_type = Default\<rparr>]
              | None \<Rightarrow>
                  (case namedImports of
                     Some ni \<Rightarrow>
                       [\<lparr>imp_source = source,
                         specifiers =
                           filter (\<lambda>s. s \<noteq> [])
                             (map trim (splitOn CHR '','' (filter (\<lambda>c. c \<noteq> CHR ''{'' \<and> c \<noteq> CHR ''}'') ni))),
                         imp_type = Named\<rparr>]
                   | None \<Rightarrow> []))))"

fun addDefaultImports :: "ImportInfo list \<Rightarrow> (string \<times> string) list \<Rightarrow> ImportInfo list" where
  "addDefaultImports imps [] = imps"
| "addDefaultImports imps ((name, source) # ms) =
     addDefaultImports
       (if list_ex (\<lambda>imp. imp_source imp = source \<and> imp_type imp = Default) imps then imps
        else imps @ [\<lparr>imp_source = source, specifiers = [name], imp_type = Default\<rparr>])
       ms"

definition parseImports :: "regexEngine \<Rightarrow> string \<Rightarrow> ParsedFile \<Rightarrow> ParsedFile" where
  "parseImports re content result =
     result\<lparr>pf_imports :=
       addDefaultImports
         (pf_imports result @ concat (map importOfMatch (importRegex re content)))
         (defaultImportRegex re content)\<rparr>"

definition exportOfMatch :: "string \<times> string \<Rightarrow> ExportInfo" where
  "exportOfMatch m =
     (case m of (fullMatch, name) \<Rightarrow>
        \<lparr>exp_name = name,
         exp_type =
           (if str_includes fullMatch ''function'' then ExpFunction
            else if str_includes fullMatch ''class'' then ExpClass
            else if str_includes fullMatch ''interface'' then ExpInterface
            else if str_includes fullMatch ''type'' then ExpType
            else ExpVariable),
         isDefault = str_includes fullMatch ''default''\<rparr>)"

fun addDefaultExports :: "ExportInfo list \<Rightarrow> string list \<Rightarrow> ExportInfo list" where
  "addDefaultExports exps [] = exps"
| "addDefaultExports exps (name # ms) =
     addDefaultExports
       (if list_ex (\<lambda>exp. exp_name exp = name \<and> isDefault exp) exps then exps
        else exps @ [\<lparr>exp_name = name, exp_type = ExpVariable, isDefault = True\<rparr>])
       ms"

definition parseExports :: "regexEngine \<Rightarrow> string \<Rightarrow> ParsedFile \<Rightarrow> ParsedFile" where
  "parseExports re content result =
     result\<lparr>pf_exports :=
       addDefaultExports
         (pf_exports result @ map exportOfMatch (exportRegex re content))
         (exportDefaultRegex re content)\<rparr>"

definition functionOfMatch :: "string \<times> string \<times> string \<Rightarrow> FunctionInfo" where
  "functionOfMatch m =
     (case m of (fullMatch, name, ps) \<Rightarrow>
        \<lparr>fn_name = name,
         params = filter (\<lambda>s. s \<noteq> []) (map (\<lambda>p. firstToken (trim p)) (splitOn CHR '','' ps)),
         isAsync = str_includes fullMatch ''async'',
         fn_isExported = str_includes fullMatch ''export''\<rparr>)"

definition arrowOfMatch :: "string \<times> string \<Rightarrow> FunctionInfo" where
  "arrowOfMatch m =
     (case m of (fullMatch, name) \<Rightarrow>
        \<lparr>fn_name = name,
         params = [],
         isAsync = str_includes fullMatch ''async'',
         fn_isExported = str_includes fullMatch ''export''\<rparr>)"

definition parseFunctions :: "regexEngine \<Rightarrow> string \<Rightarrow> ParsedFile \<Rightarrow> ParsedFile" where
  "parseFunctions re content result =
     result\<lparr>pf_functions :=
       pf_functions result @ map functionOfMatch (functionRegex re content)
         @ map arrowOfMatch (arrowFunctionRegex re content)\<rparr>"

definition classOfMatch :: "regexEngine \<Rightarrow> string \<times> string \<times> string \<Rightarrow> ClassInfo" where
  "classOfMatch re m =
     (case m of (fullMatch, name, body) \<Rightarrow>
        \<lparr>cls_name = name,
         methods = filter (\<lambda>methodName. methodName \<noteq> ''constructor'') (methodRegex re body),
         cls_isExported = str_includes fullMatch ''export''\<rparr>)"

definition parseClasses :: "regexEngine \<Rightarrow> string \<Rightarrow> ParsedFile \<Rightarrow> ParsedFile" where
  "parseClasses re content result =
     result\<lparr>pf_classes := pf_classes result @ map (classOfMatch re) (classRegex re content)\<rparr>"

definition interfaceOfMatch :: "regexEngine \<Rightarrow> string \<times> string \<times> string \<Rightarrow> InterfaceInfo" where
  "interfaceOfMatch re m =
     (case m of (fullMatch, name, body) \<Rightarrow>
        \<lparr>if_name = name,
         properties = propRegex re body,
         if_isExported = str_includes fullMatch ''export''\<rparr>)"

definition parseInterfaces :: "regexEngine \<Rightarrow> string \<Rightarrow> ParsedFile \<Rightarrow> ParsedFile" where
  "parseInterfaces re content result =
     result\<lparr>pf_interfaces :=
       pf_interfaces result @ map (interfaceOfMatch re) (interfaceRegex re content)\<rparr>"

definition determinePurpose :: "ParsedFile \<Rightarrow> string \<Rightarrow> string" where
  "determinePurpose parsed fileName =
     (let baseName = toLowerCase (path_basename_ext fileName (path_extname fileName)) in
      if str_includes baseName ''test'' \<or> str_includes baseName ''spec'' then
        ''Test suite for unit testing''
      else if baseName = ''index'' then ''Module entry point that exports public API''
      else
        (case pf_classes parsed of
           mainClass # _ \<Rightarrow>
             ''Defines '' @ cls_name mainClass @ '' class with ''
               @ numToString (length (methods mainClass)) @ '' methods''
         | [] \<Rightarrow>
             if pf_interfaces parsed \<noteq> [] then
               ''Type definitions including '' @ joinWith '', '' (map if_name (pf_interfaces parsed))
             else if pf_functions parsed \<noteq> []
                 \<and> filter fn_isExported (pf_functions parsed) \<noteq> [] then
               ''Provides '' @ joinWith '', '' (map fn_name (filter fn_isExported (pf_functions parsed)))
                 @ '' functionality''
             else if list_ex (\<lambda>i. str_includes (imp_source i) ''react'') (pf_imports parsed) then
               ''React component''
             else if list_ex (\<lambda>i. str_includes (imp_source i) ''express'') (pf_imports parsed) then
               ''Express server/middleware''
             else ''Module implementation''))"

definition sourceExtensions :: "string list" where
  "sourceExtensions = [''.ts'', ''.tsx'', ''.js'', ''.jsx'']"

definition emptyParsedFile :: ParsedFile where
  "emptyParsedFile =
     \<lparr>pf_imports = [], pf_exports = [], pf_functions = [], pf_classes = [],
      pf_interfaces = [], mainPurpose = []\<rparr>"

text \<open>
  \<open>parseSourceFile\<close> reads the file through \<open>readFile\<close> (\<open>None\<close>: the read throws); the
  \<open>try\<close>/\<open>catch\<close> around the body turns a failed read into \<open>null\<close>.
\<close>

definition parseSourceFile :: "regexEngine \<Rightarrow> world \<Rightarrow> string \<Rightarrow> ParsedFile option" where
  "parseSourceFile re w filePath =
     (let ext = path_extname filePath in
      if ext \<notin> set sourceExtensions then None
      else
        (case readFile w filePath of
           None \<Rightarrow> None
         | Some content \<Rightarrow>
             (let result =
                    parseInterfaces re content
                      (parseClasses re content
                        (parseFunctions re content
                          (parseExports re content (parseImports re content emptyParsedFile))))
              in Some (result\<lparr>mainPurpose := determinePurpose result (path_basename filePath)\<rparr>))))"


section \<open>The file describer (src/utils/fileUtils.ts)\<close>

definition commonFiles :: "(string \<times> string) list" where
  "commonFiles =
     [(''package.json'', ''Node.js project manifest with dependencies and scripts''),
      (''tsconfig.json'', ''TypeScript compiler configuration''),
      (''webpack.config.js'', ''Webpack bundler configuration''),
      (''babel.config.js'', ''Babel transpiler configuration''),
      (''.eslintrc.json'', ''ESLint linting rules''),
      (''.gitignore'', ''Git ignore patterns''),
      (''README.md'', ''Project documentation and setup instructions''),
      (''Dockerfile'', ''Docker container configuration''),
      (''docker-compose.yml'', ''Docker Compose service definitions''),
      (''.env'', ''Environment variables (should be git-ignored)''),
      (''Makefile'', ''Build automation commands''),
      (''requirements.txt'', ''Python project dependencies''),
      (''go.mod'', ''Go module definition''),
      (''Cargo.toml'', ''Rust project manifest''),
      (''pom.xml'', ''Maven project configuration''),
      (''build.gradle'', ''Gradle build configuration'')]"

definition extensions :: "(string \<times> string) list" where
  "extensions =
     [(''.ts'', ''TypeScript source file''),
      (''.tsx'', ''TypeScript React component''),
      (''.js'', ''JavaScript source file''),
      (''.jsx'', ''JavaScript React component''),
      (''.py'', ''Python source file''),
      (''.go'', ''Go source file''),
      (''.java'', ''Java source file''),
      (''.cpp'', ''C++ source file''),
      (''.c'', ''C source file''),
      (''.rs'', ''Rust source file''),
      (''.vue'', ''Vue.js component''),
      (''.svelte'', ''Svelte component''),
      (''.css'', ''Stylesheet''),
      (''.scss'', ''SASS stylesheet''),
      (''.html'', ''HTML template''),
      (''.json'', ''JSON data file''),
      (''.yml'', ''YAML configuration file''),
      (''.yaml'', ''YAML configuration file''),
      (''.xml'', ''XML data file''),
      (''.sql'', ''SQL database script''),
      (''.sh'', ''Shell script''),
      (''.md'', ''Markdown documentation''),
      (''.test.ts'', ''TypeScript test file''),
      (''.test.js'', ''JavaScript test file''),
      (''.spec.ts'', ''TypeScript test specification''),
      (''.spec.js'', ''JavaScript test specification'')]"

text \<open>The loop over a table's entries that returns at the first key the test accepts.\<close>

fun firstEntry :: "(string \<Rightarrow> bool) \<Rightarrow> (string \<times> 'a) list \<Rightarrow> 'a option" where
  "firstEntry test [] = None"
| "firstEntry test ((key, v) # rest) = (if test key then Some v else firstEntry test rest)"

text \<open>\<open>if (table[key]) return table[key]\<close>: the property when it is truthy.\<close>

definition truthyProperty :: "(string \<times> string) list \<Rightarrow> string \<Rightarrow> jsValue option" where
  "truthyProperty table key =
     (case propertyOf table key of
        Some v \<Rightarrow> if truthy v then Some v else None
      | None \<Rightarrow> None)"

definition getFileDescription :: "string \<Rightarrow> string \<Rightarrow> jsValue" where
  "getFileDescription fileName ext =
     (case truthyProperty commonFiles fileName of
        Some d \<Rightarrow> d
      | None \<Rightarrow>
          (case firstEntry (\<lambda>key. endsWith fileName key) extensions of
             Some v \<Rightarrow> Text v
           | None \<Rightarrow> Text (toUpperCase (drop 1 ext) @ '' file'')))"

definition importantFiles :: "string list" where
  "importantFiles =
     [''index'', ''main'', ''app'', ''server'', ''client'',
      ''package.json'', ''tsconfig.json'', ''webpack.config'',
      ''Dockerfile'', ''docker-compose'', ''.env'',
      ''README'', ''config'', ''setup'', ''install'']"

definition calculateImportance :: "string \<Rightarrow> string \<Rightarrow> int" where
  "calculateImportance fileName ext =
     (if list_ex (\<lambda>important. str_includes (toLowerCase fileName) important) importantFiles then 10
      else if str_includes fileName ''.test.'' \<or> str_includes fileName ''.spec.'' then 3
      else if ext = ''.ts'' \<or> ext = ''.tsx'' \<or> ext = ''.js'' \<or> ext = ''.jsx'' then 7
      else 5)"

definition functionMap :: "(string \<times> string list) list" where
  "functionMap =
     [(''index'', [''Entry point'', ''Module exports'']),
      (''app'', [''Application initialization'', ''Main app component'']),
      (''server'', [''Server setup'', ''API endpoints'']),
      (''client'', [''Client-side entry'', ''Browser initialization'']),
      (''config'', [''Configuration management'', ''Environment setup'']),
      (''router'', [''Route definitions'', ''Navigation setup'']),
      (''middleware'', [''Request processing'', ''Authentication/Authorization'']),
      (''controller'', [''Request handling'', ''Business logic coordination'']),
      (''service'', [''Business logic'', ''External integrations'']),
      (''model'', [''Data structure'', ''Database schema'']),
      (''utils'', [''Helper functions'', ''Common utilities'']),
      (''constants'', [''Shared constants'', ''Configuration values'']),
      (''types'', [''Type definitions'', ''Interfaces'']),
      (''hooks'', [''Custom React hooks'', ''State management'']),
      (''store'', [''State management'', ''Data persistence'']),
      (''api'', [''API client'', ''HTTP requests'']),
      (''auth'', [''Authentication'', ''User management'']),
      (''database'', [''Database connection'', ''Query execution'']),
      (''logger'', [''Logging functionality'', ''Error tracking'']),
      (''validator'', [''Input validation'', ''Data sanitization'']),
      (''parser'', [''Data parsing'', ''Format conversion'']),
      (''formatter'', [''Data formatting'', ''Output preparation''])]"

definition getPrimaryFunctions :: "string \<Rightarrow> string \<Rightarrow> string list" where
  "getPrimaryFunctions fileName ext =
     (let baseName = toLowerCase (path_basename_ext fileName ext) in
      case firstEntry (\<lambda>key. str_includes baseName key) functionMap of
        Some fns \<Rightarrow> fns
      | None \<Rightarrow>
          if str_includes fileName ''.test.'' \<or> str_includes fileName ''.spec.'' then
            [''Unit tests'', ''Test cases'']
          else [''General functionality''])"

definition getFileInfo :: "world \<Rightarrow> string \<Rightarrow> error + FileAnalysis" where
  "getFileInfo w filePath =
     (case stat w filePath of
        None \<Rightarrow> Inl (StatFailed filePath)
      | Some st \<Rightarrow>
          (let ext = path_extname filePath; fileName = path_basename filePath in
           Inr \<lparr>fa_path = filePath,
                fa_description = getFileDescription fileName ext,
                importance = calculateImportance fileName ext,
                primaryFunctions = getPrimaryFunctions fileName ext,
                lastModified = mtime st\<rparr>))"

definition purposes :: "(string \<times> string) list" where
  "purposes =
     [(''src'', ''Source code directory containing the main application logic''),
      (''components'', ''React/Vue/Angular components for the user interface''),
      (''utils'', ''Utility functions and helper modules''),
      (''services'', ''Service layer for business logic and external integrations''),
      (''models'', ''Data models and database schemas''),
      (''controllers'', ''Request handlers and route controllers''),
      (''views'', ''View templates and UI layouts''),
      (''tests'', ''Test files and test utilities''),
      (''config'', ''Configuration files and environment settings''),
      (''scripts'', ''Build scripts and automation tools''),
      (''docs'', ''Documentation files and guides''),
      (''public'', ''Static assets served directly to users''),
      (''assets'', ''Images, fonts, and other media files''),
      (''styles'', ''CSS, SCSS, or other styling files''),
      (''api'', ''API endpoints and route definitions''),
      (''lib'', ''Third-party libraries or custom library code''),
      (''types'', ''TypeScript type definitions''),
      (''interfaces'', ''Interface definitions''),
      (''constants'', ''Application constants and configuration values''),
      (''middleware'', ''Express/Koa middleware functions''),
      (''hooks'', ''React hooks or other framework hooks''),
      (''store'', ''State management (Redux, Vuex, etc.)''),
      (''actions'', ''Redux/Flux actions''),
      (''reducers'', ''Redux reducers''),
      (''mutations'', ''Vuex mutations''),
      (''queries'', ''Database queries or GraphQL queries''),
      (''migrations'', ''Database migration files''),
      (''seeds'', ''Database seed files'')]"

text \<open>
  The purpose heuristic on the directory's name and its listing: the entry of the
  table when the name has one, else a sentence chosen by the extensions of the
  children, else a sentence that counts the children.
\<close>

definition purposeOfListing :: "string \<Rightarrow> string list \<Rightarrow> jsValue" where
  "purposeOfListing dirName files =
     (case truthyProperty purposes dirName of
        Some p \<Rightarrow> p
      | None \<Rightarrow>
          (let uniqueTypes = jsSet (filter (\<lambda>e. e \<noteq> []) (map path_extname files)) in
           if ''.tsx'' \<in> set uniqueTypes \<or> ''.jsx'' \<in> set uniqueTypes then
             Text ''Contains React components and UI elements''
           else if ''.vue'' \<in> set uniqueTypes then Text ''Contains Vue.js components''
           else if ''.py'' \<in> set uniqueTypes then Text ''Python modules and scripts''
           else if ''.go'' \<in> set uniqueTypes then Text ''Go language source files''
           else Text (''Contains '' @ numToString (length files) @ '' files related to '' @ dirName)))"

text \<open>
  \<open>getDirectoryPurpose\<close> lists the directory itself: every child counts, whatever the
  ignore rules say.
\<close>

definition getDirectoryPurpose :: "world \<Rightarrow> string \<Rightarrow> error + jsValue" where
  "getDirectoryPurpose w dirPath =
     (case readdir w dirPath of
        None \<Rightarrow> Inl (ReaddirFailed dirPath)
      | Some files \<Rightarrow> Inr (purposeOfListing (path_basename dirPath) files))"


section \<open>Version control (src/services/git.ts)\<close>

definition getChangedFiles :: "world \<Rightarrow> string \<Rightarrow> string list" where
  "getChangedFiles w projectPath =
     (case gitStatus w projectPath of
        None \<Rightarrow> []
      | Some status \<Rightarrow> modified status @ created status @ map snd (renamed status))"

definition getRecentCommits :: "world \<Rightarrow> string \<Rightarrow> nat \<Rightarrow> commitEntry list" where
  "getRecentCommits w projectPath limit =
     (case gitLog w projectPath limit of None \<Rightarrow> [] | Some entries \<Rightarrow> entries)"


section \<open>The AI collaborator (src/services/aiAnalyzer.ts)\<close>

text \<open>
  What the Anthropic client answers to a request: the call throws, the first content
  block is not text, or it is the given text.
\<close>

datatype ai_reply = CallFailed | NonTextReply | TextReply string

record aiClient =
  fileReply :: "string \<Rightarrow> string \<Rightarrow> ParsedFile \<Rightarrow> ai_reply"
  directoryReply ::
    "string \<Rightarrow> FileAnalysis list \<Rightarrow> (string \<times> ParsedFile) list \<Rightarrow> mode \<Rightarrow> ai_reply"

record aiInsights =
  ai_purpose :: string
  ai_architecture :: string
  ai_improvements :: "string list"

text \<open>
  The packages the analyzer calls: the regular-expression engine, the \<open>ignore\<close> filter
  built from the configured patterns (\<open>ignores\<close> answers whether a path is rejected, and
  is \<open>None\<close> where the package throws, which it does on a text it does not take for a
  relative path), the AI client (\<open>None\<close> when no API key is set),
  \<open>JSON.parse\<close> on a directory reply (absent fields read as empty), and the document
  renderer \<open>generateDocumentation\<close>, whose module is not part of the sources at hand.
\<close>

record libraries =
  regex :: regexEngine
  ignores :: "string list \<Rightarrow> string \<Rightarrow> bool option"
  client :: "aiClient option"
  jsonParse :: "string \<Rightarrow> aiInsights option"
  generateDocumentation :: "DirectoryAnalysis \<Rightarrow> CodeContextConfig \<Rightarrow> string"

definition isAvailable :: "libraries \<Rightarrow> bool" where
  "isAvailable L = (client L \<noteq> None)"

definition orElse :: "string \<Rightarrow> string \<Rightarrow> string" where
  "orElse a b = (if a \<noteq> [] then a else b)"

definition ai_analyzeDirectory ::
  "libraries \<Rightarrow> string \<Rightarrow> FileAnalysis list \<Rightarrow> (string \<times> ParsedFile) list \<Rightarrow> mode
     \<Rightarrow> aiInsights option" where
  "ai_analyzeDirectory L dirPath files parsedFiles m =
     (case client L of
        None \<Rightarrow> None
      | Some c \<Rightarrow>
          (case directoryReply c dirPath files parsedFiles m of
             TextReply t \<Rightarrow>
               (case jsonParse L t of
                  Some parsed \<Rightarrow>
                    Some \<lparr>ai_purpose = orElse (ai_purpose parsed) ''AI analysis unavailable'',
                          ai_architecture = orElse (ai_architecture parsed) ''AI analysis unavailable'',
                          ai_improvements = ai_improvements parsed\<rparr>
                | None \<Rightarrow>
                    Some \<lparr>ai_purpose = ''AI-powered analysis available with proper API key'',
                          ai_architecture = take 200 t,
                          ai_improvements = []\<rparr>)
           | _ \<Rightarrow>
               Some \<lparr>ai_purpose = ''AI-powered analysis available with proper API key'',
                     ai_architecture = ''Standard module structure'',
                     ai_improvements = []\<rparr>))"

definition ai_analyzeCodeQuality :: "libraries \<Rightarrow> string \<Rightarrow> string \<Rightarrow> ParsedFile \<Rightarrow> string" where
  "ai_analyzeCodeQuality L filePath content parsed =
     (case client L of
        None \<Rightarrow> orElse (mainPurpose parsed) ''File analysis''
      | Some c \<Rightarrow>
          (case fileReply c filePath content parsed of
             TextReply t \<Rightarrow> trim t
           | _ \<Rightarrow> mainPurpose parsed))"


section \<open>The directory analyzer (src/services/analyzer.ts)\<close>

text \<open>\<open>acc[ext] = (acc[ext] || 0) + 1\<close> on an object whose keys keep their insertion order.\<close>

fun countKey :: "(string \<times> nat) list \<Rightarrow> string \<Rightarrow> (string \<times> nat) list" where
  "countKey [] k = [(k, 1)]"
| "countKey ((k', n) # acc) k = (if k' = k then (k', n + 1) # acc else (k', n) # countKey acc k)"

definition isTestPath :: "FileAnalysis \<Rightarrow> bool" where
  "isTestPath f = (str_includes (fa_path f) ''.test.'' \<or> str_includes (fa_path f) ''.spec.'')"

definition generateArchitectureInsights :: "FileAnalysis list \<Rightarrow> Dependency list \<Rightarrow> string" where
  "generateArchitectureInsights files deps =
     (let fileTypes = foldl countKey [] (map (\<lambda>f. path_extname (fa_path f)) files);
          mainType =
            (case jsSort (\<lambda>a b. int (snd b) - int (snd a)) fileTypes of
               [] \<Rightarrow> []
             | m # _ \<Rightarrow>
                 [''Primarily '' @ fst m @ '' files ('' @ numToString (snd m) @ '' files)'']);
          externalDeps =
            jsSet (map dep_from
              (filter (\<lambda>d. dep_type d = DepImport \<and> \<not> startsWith (dep_from d) ''.'') deps));
          uses =
            (if externalDeps \<noteq> [] then
               [''Uses '' @ joinWith '', '' (take 3 externalDeps)
                  @ (if length externalDeps > 3 then '' and others'' else [])]
             else []);
          hasTests = list_ex isTestPath files;
          hasTypes =
            list_ex (\<lambda>f. str_includes (fa_path f) ''.d.ts''
                        \<or> str_includes (path_basename (fa_path f)) ''types'') files;
          insights =
            mainType @ uses @ (if hasTests then [''Includes test files''] else [])
              @ (if hasTypes then [''Has TypeScript type definitions''] else [])
      in orElse (joinWith ''. '' insights) ''Standard module structure'')"

definition generateImprovements :: "FileAnalysis list \<Rightarrow> Dependency list \<Rightarrow> string list" where
  "generateImprovements files deps =
     (let hasTests = list_ex isTestPath files;
          hasCode = list_ex (\<lambda>f. path_extname (fa_path f) \<in> set sourceExtensions) files;
          hasReadme = list_ex (\<lambda>f. toLowerCase (path_basename (fa_path f)) = ''readme.md'') files;
          hasJS = list_ex (\<lambda>f. path_extname (fa_path f) \<in> set [''.js'', ''.jsx'']) files;
          hasTypes = list_ex (\<lambda>f. str_includes (fa_path f) ''.d.ts'') files
      in (if hasCode \<and> \<not> hasTests then [''Consider adding unit tests''] else [])
         @ (if \<not> hasReadme \<and> length files > 5 then [''Add README.md for better documentation'']
            else [])
         @ (if hasJS \<and> \<not> hasTypes then [''Consider adding TypeScript or type definitions'']
            else []))"

text \<open>The description of a parsed file: the AI's sentence when the AI is used, else the parsed purpose.\<close>

definition describeParsed ::
  "libraries \<Rightarrow> world \<Rightarrow> CodeContextConfig \<Rightarrow> string \<Rightarrow> ParsedFile \<Rightarrow> jsValue \<Rightarrow> jsValue" where
  "describeParsed L w config filePath parsed baseline =
     (if cfg_mode config \<noteq> Quick \<and> isAvailable L then
        (case readFile w filePath of
           None \<Rightarrow> textOr (mainPurpose parsed) baseline
         | Some content \<Rightarrow> Text (ai_analyzeCodeQuality L filePath content parsed))
      else textOr (mainPurpose parsed) baseline)"

definition renderSignature :: "FunctionInfo \<Rightarrow> string" where
  "renderSignature f = fn_name f @ ''('' @ joinWith '', '' (params f) @ '')''"

definition importDependency :: "string \<Rightarrow> ImportInfo \<Rightarrow> Dependency" where
  "importDependency filePath imp =
     \<lparr>dep_name = orElse (joinWith '', '' (specifiers imp)) (imp_source imp),
      dep_type = DepImport, dep_from = imp_source imp, dep_to = filePath\<rparr>"

definition exportDependency :: "string \<Rightarrow> ExportInfo \<Rightarrow> Dependency" where
  "exportDependency filePath exp =
     \<lparr>dep_name = exp_name exp, dep_type = DepExport, dep_from = filePath, dep_to = ''external''\<rparr>"

text \<open>
  One turn of the loop over the directory's regular files: the file's analysis, the
  dependencies it adds, and its entry in the map of parsed files.
\<close>

definition analyzeFile ::
  "libraries \<Rightarrow> world \<Rightarrow> CodeContextConfig \<Rightarrow> string
     \<Rightarrow> error + (FileAnalysis \<times> Dependency list \<times> (string \<times> ParsedFile) list)" where
  "analyzeFile L w config filePath =
     (case getFileInfo w filePath of
        Inl e \<Rightarrow> Inl e
      | Inr fileInfo \<Rightarrow>
          (case parseSourceFile (regex L) w filePath of
             None \<Rightarrow> Inr (fileInfo, [], [])
           | Some parsed \<Rightarrow>
               (let described =
                      fileInfo\<lparr>fa_description :=
                        describeParsed L w config filePath parsed (fa_description fileInfo)\<rparr>;
                    named =
                      (if pf_functions parsed \<noteq> [] then
                         described\<lparr>primaryFunctions :=
                           take 3 (map renderSignature (filter fn_isExported (pf_functions parsed)))\<rparr>
                       else described)
                in Inr (named,
                        map (importDependency filePath) (pf_imports parsed)
                          @ map (exportDependency filePath) (pf_exports parsed),
                        [(filePath, parsed)]))))"

fun analyzeFiles ::
  "libraries \<Rightarrow> world \<Rightarrow> CodeContextConfig \<Rightarrow> string \<Rightarrow> string list
     \<Rightarrow> error + (FileAnalysis list \<times> Dependency list \<times> (string \<times> ParsedFile) list)" where
  "analyzeFiles L w config dirPath [] = Inr ([], [], [])"
| "analyzeFiles L w config dirPath (file # rest) =
     (case stat w (path_join dirPath file) of
        None \<Rightarrow> Inl (StatFailed (path_join dirPath file))
      | Some st \<Rightarrow>
          if isFile st then
            (case analyzeFile L w config (path_join dirPath file) of
               Inl e \<Rightarrow> Inl e
             | Inr (fileInfo, deps, parsed) \<Rightarrow>
                 (case analyzeFiles L w config dirPath rest of
                    Inl e \<Rightarrow> Inl e
                  | Inr (fileAnalyses, allDependencies, parsedFiles) \<Rightarrow>
                      Inr (fileInfo # fileAnalyses, deps @ allDependencies, parsed @ parsedFiles)))
          else analyzeFiles L w config dirPath rest)"

text \<open>
  The walk towards the root looking for \<open>.git\<close>. \<open>path.dirname\<close> shortens every path
  but its fixed points, which bounds the loop.
\<close>

definition pathMeasure :: "string \<Rightarrow> nat" where
  "pathMeasure p = (if p = [dot] then 0 else length p + 1)"

lemma dropWhile_component_shorter:
  assumes "dropWhile (\<lambda>x. x \<noteq> s) (dropWhile (\<lambda>x. x = s) xs) \<noteq> []"
  shows "length (dropWhile (\<lambda>x. x \<noteq> s) (dropWhile (\<lambda>x. x = s) xs)) < length xs"
proof (cases "dropWhile (\<lambda>x. x = s) xs")
  case Nil
  with assms show ?thesis by simp
next
  case (Cons y ys)
  have "y \<noteq> s"
    using hd_dropWhile [of "\<lambda>x. x = s" xs] Cons by simp
  then have "dropWhile (\<lambda>x. x \<noteq> s) (y # ys) = dropWhile (\<lambda>x. x \<noteq> s) ys"
    by simp
  moreover have "length (dropWhile (\<lambda>x. x \<noteq> s) ys) \<le> length ys"
    by (rule length_dropWhile_le)
  moreover have "length (y # ys) \<le> length xs"
    using length_dropWhile_le [of "\<lambda>x. x = s" xs] Cons by simp
  ultimately show ?thesis
    using Cons by simp
qed

lemma path_dirname_no_cut:
  assumes "dropWhile (\<lambda>x. x \<noteq> slash) (dropWhile (\<lambda>x. x = slash) (rev cs)) = []"
  shows "path_dirname (c # cs) = (if c = slash then [slash] else [dot])"
  by (simp only: path_dirname_def list.case Let_def assms simp_thms if_True)

lemma path_dirname_cut:
  assumes "dropWhile (\<lambda>x. x \<noteq> slash) (dropWhile (\<lambda>x. x = slash) (rev cs)) \<noteq> []"
  shows "path_dirname (c # cs) =
     (if c = slash \<and> tl (dropWhile (\<lambda>x. x \<noteq> slash) (dropWhile (\<lambda>x. x = slash) (rev cs))) = []
      then [slash, slash]
      else c # rev (tl (dropWhile (\<lambda>x. x \<noteq> slash) (dropWhile (\<lambda>x. x = slash) (rev cs)))))"
  by (simp only: path_dirname_def list.case Let_def assms simp_thms if_False)

lemma path_dirname_decreases:
  assumes "path_dirname p \<noteq> p"
  shows "pathMeasure (path_dirname p) < pathMeasure p"
proof (cases p)
  case Nil
  then show ?thesis by (simp add: path_dirname_def pathMeasure_def)
next
  case (Cons c cs)
  define r where "r = dropWhile (\<lambda>x. x \<noteq> slash) (dropWhile (\<lambda>x. x = slash) (rev cs))"
  have neq: "slash \<noteq> dot" by (simp add: slash_def dot_def)
  show ?thesis
  proof (cases "r = []")
    case True
    then have d: "path_dirname p = (if c = slash then [slash] else [dot])"
      unfolding Cons r_def by (rule path_dirname_no_cut)
    show ?thesis
    proof (cases "c = slash")
      case True
      then have dp: "path_dirname p = [slash]" using d by simp
      have "cs \<noteq> []" using dp assms Cons True by auto
      then have "2 \<le> length p" using Cons by (cases cs) auto
      moreover have "p \<noteq> [dot]" using Cons True neq by auto
      ultimately show ?thesis using neq dp by (simp add: pathMeasure_def)
    next
      case False
      then have dp: "path_dirname p = [dot]" using d by simp
      moreover have "p \<noteq> [dot]" using assms dp by auto
      ultimately show ?thesis by (simp add: pathMeasure_def)
    qed
  next
    case False
    then have short: "length r < length cs"
      using dropWhile_component_shorter [of slash "rev cs"] by (simp add: r_def)
    have d: "path_dirname p = (if c = slash \<and> tl r = [] then [slash, slash] else c # rev (tl r))"
      using False unfolding Cons r_def by (rule path_dirname_cut)
    have "length (path_dirname p) \<le> length r + 1"
      using False by (cases r) (auto simp: d)
    then have "length (path_dirname p) < length p"
      using short Cons by simp
    moreover have "p \<noteq> [dot]"
      using short Cons by auto
    ultimately show ?thesis
      by (simp add: pathMeasure_def)
  qed
qed

function findGitRoot :: "world \<Rightarrow> string \<Rightarrow> string" where
  "findGitRoot w gitRoot =
     (if gitRoot \<noteq> path_dirname gitRoot then
        (if pathExists w (path_join gitRoot ''.git'') then gitRoot
         else findGitRoot w (path_dirname gitRoot))
      else gitRoot)"
  by pat_completeness auto
termination
proof (relation "measure (\<lambda>(w, p). pathMeasure p)")
  show "wf (measure (\<lambda>(w, p). pathMeasure p))" by simp
next
  fix w :: world and gitRoot :: string
  assume "gitRoot \<noteq> path_dirname gitRoot"
  then have "pathMeasure (path_dirname gitRoot) < pathMeasure gitRoot"
    using path_dirname_decreases [of gitRoot] by simp
  then show "((w, path_dirname gitRoot), (w, gitRoot)) \<in> measure (\<lambda>(w, p). pathMeasure p)"
    by simp
qed

declare findGitRoot.simps [simp del]

definition changeOfCommit :: "commitEntry \<Rightarrow> Change" where
  "changeOfCommit c =
     \<lparr>commit = take 7 (hash c), ch_date = commit_date c, ch_description = message c,
      impact = ''Code changes'', ch_files = []\<rparr>"

text \<open>
  The \<open>try\<close> block around the history lookup: whatever throws inside leaves the list empty.
\<close>

definition collectRecentChanges :: "world \<Rightarrow> string \<Rightarrow> Change list" where
  "collectRecentChanges w dirPath =
     (let gitRoot = findGitRoot w dirPath in
      if pathExists w (path_join gitRoot ''.git'') then
        map changeOfCommit (getRecentCommits w gitRoot 5)
      else [])"

definition compareImportance :: "FileAnalysis \<Rightarrow> FileAnalysis \<Rightarrow> int" where
  "compareImportance a b = importance b - importance a"

text \<open>A file analysis with its modification time blanked.\<close>

definition untimed :: "FileAnalysis \<Rightarrow> FileAnalysis" where
  "untimed f = f\<lparr>lastModified := 0\<rparr>"

text \<open>
  \<open>files.filter(file => !ig.ignores(file))\<close>: the filter is asked about every child in
  turn, by the child's name, and the first name it throws on ends the analysis.
\<close>

fun dropIgnored :: "libraries \<Rightarrow> CodeContextConfig \<Rightarrow> string list \<Rightarrow> error + string list" where
  "dropIgnored L config [] = Inr []"
| "dropIgnored L config (file # rest) =
     (case ignores L (ignorePatterns config) file of
        None \<Rightarrow> Inl (IgnoreFailed file)
      | Some rejected \<Rightarrow>
          (case dropIgnored L config rest of
             Inl e \<Rightarrow> Inl e
           | Inr kept \<Rightarrow> Inr (if rejected then kept else file # kept)))"

text \<open>The children the analyzer goes through: those the filter accepts, dotfiles dropped.\<close>

definition listedFiles :: "libraries \<Rightarrow> CodeContextConfig \<Rightarrow> string list \<Rightarrow> error + string list" where
  "listedFiles L config files =
     (case dropIgnored L config files of
        Inl e \<Rightarrow> Inl e
      | Inr kept \<Rightarrow> Inr (filter (\<lambda>file. \<not> startsWith file ''.'') kept))"

text \<open>
  The record \<open>analyzeDirectory\<close> builds once the files are analyzed, the history is
  read and the heuristic purpose is known: the AI's insights replace the heuristic
  ones where the AI is used and answers with non-empty fields.
\<close>

definition assembleAnalysis ::
  "libraries \<Rightarrow> CodeContextConfig \<Rightarrow> string \<Rightarrow> FileAnalysis list \<Rightarrow> Dependency list
     \<Rightarrow> (string \<times> ParsedFile) list \<Rightarrow> Change list \<Rightarrow> jsValue \<Rightarrow> DirectoryAnalysis" where
  "assembleAnalysis L config dirPath fileAnalyses allDependencies parsedFiles changes purpose' =
     (let architecture' = generateArchitectureInsights fileAnalyses allDependencies;
          improvements' = generateImprovements fileAnalyses allDependencies;
          aiInsights =
            (if cfg_mode config \<noteq> Quick \<and> isAvailable L then
               ai_analyzeDirectory L dirPath fileAnalyses parsedFiles (cfg_mode config)
             else None)
      in \<lparr>da_path = dirPath,
          purpose =
            (case aiInsights of
               None \<Rightarrow> purpose'
             | Some ai \<Rightarrow> textOr (ai_purpose ai) purpose'),
          architecture =
            (case aiInsights of
               None \<Rightarrow> architecture'
             | Some ai \<Rightarrow> orElse (ai_architecture ai) architecture'),
          keyFiles = take 10 (jsSort compareImportance fileAnalyses),
          recentChanges = changes,
          improvements =
            (case aiInsights of
               None \<Rightarrow> improvements'
             | Some ai \<Rightarrow>
                 if ai_improvements ai \<noteq> [] then ai_improvements ai else improvements'),
          dependencies = allDependencies\<rparr>)"

definition analyzeDirectory ::
  "libraries \<Rightarrow> world \<Rightarrow> nat \<Rightarrow> string \<Rightarrow> CodeContextConfig \<Rightarrow> error + (DirectoryAnalysis \<times> world)" where
  "analyzeDirectory L w now dirPath config =
     (case readdir w dirPath of
        None \<Rightarrow> Inl (ReaddirFailed dirPath)
      | Some files \<Rightarrow>
          (case listedFiles L config files of
             Inl e \<Rightarrow> Inl e
           | Inr filteredFiles \<Rightarrow>
               (case analyzeFiles L w config dirPath filteredFiles of
                  Inl e \<Rightarrow> Inl e
                | Inr (fileAnalyses, allDependencies, parsedFiles) \<Rightarrow>
                    (case getDirectoryPurpose w dirPath of
                       Inl e \<Rightarrow> Inl e
                     | Inr purpose' \<Rightarrow>
                         (let analysis =
                                assembleAnalysis L config dirPath fileAnalyses allDependencies
                                  parsedFiles (collectRecentChanges w dirPath) purpose'
                          in case writeFile w (path_join dirPath ''claude.md'')
                                    (generateDocumentation L analysis config) now of
                               Inl e \<Rightarrow> Inl e
                             | Inr w' \<Rightarrow> Inr (analysis, w'))))))"




text \<open>The conditions under which \<open>writeFile\<close> does not throw.\<close>

definition writable :: "world \<Rightarrow> string \<Rightarrow> bool" where
  "writable w p =
     (\<not> writeDenied w p
      \<and> \<not> (case stat w p of Some st \<Rightarrow> isDirectory st | None \<Rightarrow> False)
      \<and> \<not> (stat w p = None \<and> readdir w (path_dirname p) = None))"



section \<open>The persisted document\<close>

definition nl :: string where
  "nl = [CHR 0x0A]"

definition unlines :: "string list \<Rightarrow> string" where
  "unlines ls = concat (map (\<lambda>l. l @ nl) ls)"

definition renderKeyFile :: "FileAnalysis \<Rightarrow> string" where
  "renderKeyFile f =
     ''- '' @ fa_path f @ '' (importance: '' @ numToString (nat (importance f)) @ ''): ''
       @ toText (fa_description f) @ '' ['' @ joinWith '', '' (primaryFunctions f) @ '']''"

definition renderChange :: "Change \<Rightarrow> string" where
  "renderChange c =
     ''- '' @ commit c @ '' '' @ ch_date c @ '': '' @ ch_description c @ '' ('' @ impact c @ '')''"

definition renderDependency :: "Dependency \<Rightarrow> string" where
  "renderDependency d =
     ''- '' @ dep_name d @ '' (''
       @ (case dep_type d of DepImport \<Rightarrow> ''import'' | DepExport \<Rightarrow> ''export'' | DepExternal \<Rightarrow> ''external'')
       @ ''): '' @ dep_from d @ '' -> '' @ dep_to d"

text \<open>
  Modelled from the spec: the module \<open>documentationGenerator\<close> that renders the record
  is not among the sources. The spec asks for a Markdown document with sections for
  Purpose, Architecture, Key Files (ranked), Recent Changes, Improvement Suggestions
  and the Dependency listing, derived directly from the fields of the Directory
  Analysis Record; Scenario A has a key file listed with its importance and its
  primary functions.
\<close>

definition specDocumentation :: "DirectoryAnalysis \<Rightarrow> CodeContextConfig \<Rightarrow> string" where
  "specDocumentation a config =
     unlines
       ([''# '' @ path_basename (da_path a), [],
         ''## Purpose'', toText (purpose a), [],
         ''## Architecture'', architecture a, [],
         ''## Key Files'']
        @ map renderKeyFile (keyFiles a)
        @ [[], ''## Recent Changes'']
        @ map renderChange (recentChanges a)
        @ [[], ''## Improvement Suggestions'']
        @ map (\<lambda>i. ''- '' @ i) (improvements a)
        @ [[], ''## Dependencies'']
        @ map renderDependency (dependencies a))"


section \<open>The context synthesizer (src/services/contextGenerator.ts)\<close>

definition branchConnector :: string where
  "branchConnector = [CHR 0xE2, CHR 0x94, CHR 0x9C, CHR 0xE2, CHR 0x94, CHR 0x80,
                      CHR 0xE2, CHR 0x94, CHR 0x80, CHR 0x20]"

definition lastConnector :: string where
  "lastConnector = [CHR 0xE2, CHR 0x94, CHR 0x94, CHR 0xE2, CHR 0x94, CHR 0x80,
                    CHR 0xE2, CHR 0x94, CHR 0x80, CHR 0x20]"

definition branchExtension :: string where
  "branchExtension = [CHR 0xE2, CHR 0x94, CHR 0x82, CHR 0x20, CHR 0x20, CHR 0x20]"

definition lastExtension :: string where
  "lastExtension = ''    ''"

text \<open>
  The loop of \<open>traverse\<close> over the filtered items of one directory; \<open>below\<close> renders a
  subdirectory when the depth budget allows it.
\<close>

fun traverseItems ::
  "world \<Rightarrow> (string \<Rightarrow> string \<Rightarrow> error + string list) \<Rightarrow> bool \<Rightarrow> string \<Rightarrow> string
     \<Rightarrow> string list \<Rightarrow> error + string list" where
  "traverseItems w below deeper currentPath pre [] = Inr []"
| "traverseItems w below deeper currentPath pre (item # rest) =
     (case stat w (path_join currentPath item) of
        None \<Rightarrow> Inl (StatFailed (path_join currentPath item))
      | Some st \<Rightarrow>
          (let isLast = (rest = []);
               line = pre @ (if isLast then lastConnector else branchConnector) @ item
           in case (if isDirectory st \<and> deeper then
                      below (path_join currentPath item)
                        (pre @ (if isLast then lastExtension else branchExtension))
                    else Inr []) of
                Inl e \<Rightarrow> Inl e
              | Inr sub \<Rightarrow>
                  (case traverseItems w below deeper currentPath pre rest of
                     Inl e \<Rightarrow> Inl e
                   | Inr others \<Rightarrow> Inr (line # sub @ others))))"

text \<open>\<open>traverse\<close> at a depth with \<open>k\<close> further levels allowed below it (\<open>maxDepth - depth\<close>).\<close>

primrec traverse :: "world \<Rightarrow> nat \<Rightarrow> string \<Rightarrow> string \<Rightarrow> error + string list" where
  "traverse w 0 currentPath pre =
     (case readdir w currentPath of
        None \<Rightarrow> Inl (ReaddirFailed currentPath)
      | Some items \<Rightarrow>
          traverseItems w (\<lambda>p q. Inr []) False currentPath pre
            (filter (\<lambda>item. \<not> startsWith item ''.'' \<and> item \<noteq> ''node_modules'') items))"
| "traverse w (Suc k) currentPath pre =
     (case readdir w currentPath of
        None \<Rightarrow> Inl (ReaddirFailed currentPath)
      | Some items \<Rightarrow>
          traverseItems w (traverse w k) True currentPath pre
            (filter (\<lambda>item. \<not> startsWith item ''.'' \<and> item \<noteq> ''node_modules'') items))"

definition getFileStructure :: "world \<Rightarrow> string \<Rightarrow> nat \<Rightarrow> error + string" where
  "getFileStructure w dirPath maxDepth =
     (if maxDepth < 1 then Inr []
      else
        (case traverse w (maxDepth - 1) dirPath [] of
           Inl e \<Rightarrow> Inl e
         | Inr tree \<Rightarrow> Inr (joinWith nl tree)))"

definition directorySummary :: "string \<Rightarrow> string \<Rightarrow> string" where
  "directorySummary file content =
     nl @ ''### '' @ path_dirname file @ nl
       @ joinWith nl (take 10 (splitOn (CHR 0x0A) content)) @ nl
       @ ''...'' @ nl @ nl"

fun appendSummaries :: "world \<Rightarrow> string \<Rightarrow> string \<Rightarrow> string list \<Rightarrow> error + string" where
  "appendSummaries w projectPath context [] = Inr context"
| "appendSummaries w projectPath context (file # rest) =
     (case readFile w (path_join projectPath file) of
        None \<Rightarrow> Inl (ReadFailed (path_join projectPath file))
      | Some content \<Rightarrow>
          appendSummaries w projectPath (context @ directorySummary file content) rest)"

definition projectHeader :: "string \<Rightarrow> string" where
  "projectHeader tree =
     ''# Project-Wide Context'' @ nl @ nl @ ''## Project Structure'' @ nl @ tree @ nl @ nl
       @ ''## Directory Summaries'' @ nl"

text \<open>
  \<open>claudeFiles\<close> is what \<open>glob('**/claude.md', ...)\<close> found under the project, in the
  order it reported the files.
\<close>

definition generateProjectContext :: "world \<Rightarrow> string list \<Rightarrow> string \<Rightarrow> error + string" where
  "generateProjectContext w claudeFiles projectPath =
     (case getFileStructure w projectPath 1 of
        Inl e \<Rightarrow> Inl e
      | Inr tree \<Rightarrow> appendSummaries w projectPath (projectHeader tree) (take 10 claudeFiles))"


section \<open>The refresh command (src/commands/refresh.ts)\<close>

record refreshOptions =
  opt_all :: bool
  opt_path :: "string option"

text \<open>\<open>path.resolve(root, p)\<close> for an absolute \<open>root\<close>.\<close>

definition path_resolve :: "string \<Rightarrow> string \<Rightarrow> string" where
  "path_resolve root p =
     slash # normalizeString (if startsWith p [slash] then p else root @ [slash] @ p) False"

fun analyzeEach ::
  "libraries \<Rightarrow> world \<Rightarrow> nat \<Rightarrow> CodeContextConfig \<Rightarrow> string list \<Rightarrow> error + (string list \<times> world)" where
  "analyzeEach L w now config [] = Inr ([], w)"
| "analyzeEach L w now config (dir # rest) =
     (case analyzeDirectory L w now dir config of
        Inl e \<Rightarrow> Inl e
      | Inr (analysis, w') \<Rightarrow>
          (case analyzeEach L w' now config rest of
             Inl e \<Rightarrow> Inl e
           | Inr (done', w'') \<Rightarrow> Inr (dir # done', w'')))"

text \<open>The directories the change-driven branch iterates over: \<open>new Set(changedFiles.map(path.dirname))\<close>.\<close>

definition changedDirectories :: "string list \<Rightarrow> string list" where
  "changedDirectories changedFiles = jsSet (map path_dirname changedFiles)"

text \<open>\<open>options.path\<close> when it is truthy: a path option that is set and not the empty string.\<close>

definition requestedPath :: "refreshOptions \<Rightarrow> string option" where
  "requestedPath options =
     (case opt_path options of None \<Rightarrow> None | Some p \<Rightarrow> if p = [] then None else Some p)"

text \<open>
  \<open>refreshCommand\<close>: \<open>config\<close> is what \<open>fs.readJson\<close> reads from the configuration file
  (\<open>None\<close>: the read throws). The result lists the directories that were analyzed.
\<close>

definition refreshCommand ::
  "libraries \<Rightarrow> world \<Rightarrow> nat \<Rightarrow> string \<Rightarrow> CodeContextConfig option \<Rightarrow> refreshOptions
     \<Rightarrow> error + (string list \<times> world)" where
  "refreshCommand L w now projectRoot config options =
     (let configPath = path_join projectRoot ''.codecontext.json'' in
      if \<not> pathExists w configPath then Inl (NotConfigured configPath)
      else
        (case config of
           None \<Rightarrow> Inl (ReadFailed configPath)
         | Some cfg \<Rightarrow>
             if opt_all options then analyzeEach L w now cfg [projectRoot]
             else
               (case requestedPath options of
                  Some p \<Rightarrow> analyzeEach L w now cfg [path_resolve projectRoot p]
                | None \<Rightarrow>
                    (let changedFiles = getChangedFiles w projectRoot in
                     if changedFiles = [] then Inr ([], w)
                     else
                       analyzeEach L w now cfg
                         (map (path_join projectRoot) (changedDirectories changedFiles))))))"


section \<open>Example directories\<close>

text \<open>
  A regular-expression engine restricted to three texts, with the matches JavaScript
  finds in them: \<open>export function run(x) {}\<close>, \<open>function helper() {}\<close>, and texts
  without declarations.
\<close>

definition exampleRegex :: regexEngine where
  "exampleRegex =
     \<lparr>importRegex = (\<lambda>content. []),
      defaultImportRegex = (\<lambda>content. []),
      exportRegex =
        (\<lambda>content. if content = ''export function run(x) {}'' then [(''export function run'', ''run'')]
                   else []),
      exportDefaultRegex = (\<lambda>content. []),
      functionRegex =
        (\<lambda>content.
           if content = ''export function run(x) {}'' then [(''export function run(x)'', ''run'', ''x'')]
           else if content = ''function helper() {}'' then [(''function helper()'', ''helper'', [])]
           else []),
      arrowFunctionRegex = (\<lambda>content. []),
      classRegex = (\<lambda>content. []),
      methodRegex = (\<lambda>body. []),
      interfaceRegex = (\<lambda>content. []),
      propRegex = (\<lambda>body. [])\<rparr>"

text \<open>
  The \<open>ignore\<close> package on patterns of three shapes: \<open>dir/**\<close> rejects every path
  below \<open>dir\<close> (not \<open>dir\<close> itself), and a plain name or \<open>*suffix\<close> rejects every
  path with a segment of that name or with that ending; letters match without regard
  to case. The package throws on a text that is empty, consists of dots, or starts
  with a separator or with dots and a separator.
\<close>

definition invalidPath :: "string \<Rightarrow> bool" where
  "invalidPath p = (let rest = dropWhile (\<lambda>c. c = dot) p in rest = [] \<or> hd rest = slash)"

definition matchesPattern :: "string \<Rightarrow> string \<Rightarrow> bool" where
  "matchesPattern pat p =
     (let pat' = toLowerCase pat; p' = toLowerCase p in
      if endsWith pat' ''/**'' then
        (let dir = take (length pat' - 3) pat'
         in startsWith p' (dir @ [slash]) \<and> length dir + 1 < length p')
      else
        list_ex (\<lambda>seg. if startsWith pat' ''*'' then endsWith seg (drop 1 pat') else seg = pat')
          (splitOn slash p'))"

definition exampleIgnores :: "string list \<Rightarrow> string \<Rightarrow> bool option" where
  "exampleIgnores patterns p =
     (if invalidPath p then None else Some (list_ex (\<lambda>pat. matchesPattern pat p) patterns))"

text \<open>A platform that lists a directory in the order of the character codes of the names.\<close>

fun codeLess :: "string \<Rightarrow> string \<Rightarrow> bool" where
  "codeLess [] ys = (ys \<noteq> [])"
| "codeLess (x # xs) [] = False"
| "codeLess (x # xs) (y # ys) = ((of_char x :: nat) < of_char y \<or> (x = y \<and> codeLess xs ys))"

definition sortedPlacement :: "string \<Rightarrow> string list \<Rightarrow> string \<Rightarrow> nat" where
  "sortedPlacement dir names name = length (takeWhile (\<lambda>n. codeLess n name) names)"

definition exampleLibraries :: libraries where
  "exampleLibraries =
     \<lparr>regex = exampleRegex, ignores = exampleIgnores, client = None,
      jsonParse = (\<lambda>t. None), generateDocumentation = specDocumentation\<rparr>"

text \<open>The configuration \<open>init\<close> writes, in quick mode.\<close>

definition exampleConfig :: CodeContextConfig where
  "exampleConfig =
     \<lparr>cfg_version = ''1.0.0'', cfg_mode = Quick,
      ignorePatterns = [''node_modules/**'', ''dist/**'', ''build/**'', ''*.log'', ''.git/**'', ''coverage/**''],
      analysisFocus = [''architecture'', ''dependencies'', ''recent-changes''],
      outputFormat = ''markdown'', integrations_git = True, integrations_claude = True\<rparr>"

definition dirStats :: stats where
  "dirStats = \<lparr>isFile = False, isDirectory = True, mtime = 1\<rparr>"

definition fileStats :: stats where
  "fileStats = \<lparr>isFile = True, isDirectory = False, mtime = 2\<rparr>"

text \<open>
  A project under version control: \<open>/proj/src\<close> holds an entry point, a module with one
  private function, a source file that cannot be read, a text file, a dotfile, a log
  file and a subdirectory.
\<close>

definition projWorld :: world where
  "projWorld =
     \<lparr>readdir = map_of
        [(''/proj'', [''.git'', ''.codecontext.json'', ''src'', ''README.md'']),
         (''/proj/src'', [''index.ts'', ''helper.ts'', ''broken.ts'', ''notes.txt'', ''.hidden'',
                         ''debug.log'', ''lib'']),
         (''/proj/src/lib'', [])],
      stat = map_of
        [(''/'', dirStats), (''/proj'', dirStats), (''/proj/.git'', dirStats),
         (''/proj/.codecontext.json'', fileStats),
         (''/proj/src'', dirStats), (''/proj/README.md'', fileStats),
         (''/proj/src/index.ts'', fileStats), (''/proj/src/helper.ts'', fileStats),
         (''/proj/src/broken.ts'', fileStats), (''/proj/src/notes.txt'', fileStats),
         (''/proj/src/.hidden'', fileStats), (''/proj/src/debug.log'', fileStats),
         (''/proj/src/lib'', dirStats)],
      readFile = map_of
        [(''/proj/README.md'', ''# proj''),
         (''/proj/src/index.ts'', ''export function run(x) {}''),
         (''/proj/src/helper.ts'', ''function helper() {}''),
         (''/proj/src/notes.txt'', ''hello''),
         (''/proj/src/.hidden'', []), (''/proj/src/debug.log'', ''log'')],
      writeDenied = (\<lambda>p. False),
      placement = sortedPlacement,
      gitLog = (\<lambda>root limit.
        if root = ''/proj'' then
          Some (take limit
            [\<lparr>hash = ''0123456789abcdef'', commit_date = ''2024-01-02'', message = ''Add run'',
              author_name = ''dev'', author_email = ''dev@example.org''\<rparr>])
        else None),
      gitStatus = (\<lambda>root.
        if root = ''/proj'' then
          Some \<lparr>modified = [''src/index.ts'', ''README.md''], created = [''src/helper.ts''],
                renamed = [(''old.ts'', ''src/lib/new.ts'')]\<rparr>
        else None)\<rparr>"

text \<open>A directory outside version control holding one source file and no document yet.\<close>

definition loneWorld :: world where
  "loneWorld =
     \<lparr>readdir = map_of [(''/work/lone'', [''a.ts''])],
      stat = map_of
        [(''/'', dirStats), (''/work'', dirStats), (''/work/lone'', dirStats),
         (''/work/lone/a.ts'', fileStats)],
      readFile = map_of [(''/work/lone/a.ts'', ''const a = 1'')],
      writeDenied = (\<lambda>p. False),
      placement = sortedPlacement,
      gitLog = (\<lambda>root limit. None),
      gitStatus = (\<lambda>root. None)\<rparr>"

text \<open>Two source files without declarations whose names carry capitals.\<close>

definition capsWorld :: world where
  "capsWorld =
     \<lparr>readdir = map_of [(''/work/caps'', [''Index.ts'', ''MyTest.ts''])],
      stat = map_of
        [(''/'', dirStats), (''/work'', dirStats), (''/work/caps'', dirStats),
         (''/work/caps/Index.ts'', fileStats), (''/work/caps/MyTest.ts'', fileStats)],
      readFile = map_of
        [(''/work/caps/Index.ts'', ''const a = 1''), (''/work/caps/MyTest.ts'', ''const a = 1'')],
      writeDenied = (\<lambda>p. False),
      placement = sortedPlacement,
      gitLog = (\<lambda>root limit. None),
      gitStatus = (\<lambda>root. None)\<rparr>"

text \<open>The project once \<open>/proj/src\<close> holds a two-line document.\<close>

definition documentedWorld :: world where
  "documentedWorld =
     projWorld\<lparr>readFile := (readFile projWorld)
       (''/proj/src/claude.md'' \<mapsto> ''# src'' @ nl @ ''second line'')\<rparr>"

text \<open>A directory outside version control that already holds a document.\<close>

definition keptWorld :: world where
  "keptWorld =
     \<lparr>readdir = map_of [(''/work/kept'', [''a.ts'', ''claude.md''])],
      stat = map_of
        [(''/'', dirStats), (''/work'', dirStats), (''/work/kept'', dirStats),
         (''/work/kept/a.ts'', fileStats), (''/work/kept/claude.md'', fileStats)],
      readFile = map_of
        [(''/work/kept/a.ts'', ''const a = 1''), (''/work/kept/claude.md'', ''# kept'')],
      writeDenied = (\<lambda>p. False),
      placement = sortedPlacement,
      gitLog = (\<lambda>root limit. None),
      gitStatus = (\<lambda>root. None)\<rparr>"

text \<open>
  The project once a build has put a bundle below \<open>/proj/dist\<close> and version control
  reports the bundle as modified.
\<close>

definition builtWorld :: world where
  "builtWorld =
     projWorld\<lparr>
       readdir := (readdir projWorld)
         (''/proj'' \<mapsto> [''.git'', ''.codecontext.json'', ''dist'', ''src'', ''README.md''],
          ''/proj/dist'' \<mapsto> [''bundle.js'']),
       stat := (stat projWorld)
         (''/proj/dist'' \<mapsto> dirStats, ''/proj/dist/bundle.js'' \<mapsto> fileStats),
       readFile := (readFile projWorld)(''/proj/dist/bundle.js'' \<mapsto> ''var a = 1''),
       gitStatus := (\<lambda>root.
         if root = ''/proj'' then
           Some \<lparr>modified = [''dist/bundle.js''], created = [], renamed = []\<rparr>
         else None)\<rparr>"



text \<open>The project when version control reports no change.\<close>

definition quietWorld :: world where
  "quietWorld = projWorld\<lparr>gitStatus := (\<lambda>root. None)\<rparr>"


section \<open>Evaluation rules\<close>

lemmas str_simps = toLowerCase_def toLowerChar_def upperChars_def lowerChars_def
  startsWith_def endsWith_def

lemmas path_simps = path_extname_def path_basename_def path_dirname_def path_join_def
  path_normalize_def normalizeString_def normStep_def slash_def dot_def


section \<open>Paths of the children of a directory\<close>

lemma dropWhile_head: "xs \<noteq> [] \<Longrightarrow> \<not> P (hd xs) \<Longrightarrow> dropWhile P (xs @ ys) = xs @ ys"
  by (cases xs) auto

lemma takeWhile_stop:
  "(\<And>x. x \<in> set xs \<Longrightarrow> P x) \<Longrightarrow> \<not> P y \<Longrightarrow> takeWhile P (xs @ y # ys) = xs"
  by (simp add: takeWhile_append2)

lemma dropWhile_stop:
  "(\<And>x. x \<in> set xs \<Longrightarrow> P x) \<Longrightarrow> \<not> P y \<Longrightarrow> dropWhile P (xs @ y # ys) = y # ys"
  by (simp add: dropWhile_append2)

lemma path_basename_child:
  assumes "simpleName n"
  shows "path_basename (d @ slash # n) = n"
proof -
  have "n \<noteq> []" and free: "slash \<notin> set n"
    using assms by (simp_all add: simpleName_def)
  then have "last n \<in> set n" by simp
  with free have "last n \<noteq> slash" by metis
  with \<open>n \<noteq> []\<close> free have n: "rev n \<noteq> []" "slash \<notin> set (rev n)" "hd (rev n) \<noteq> slash"
    by (simp_all add: hd_rev)
  have 1: "dropWhile (\<lambda>c. c = slash) (rev n @ slash # rev d) = rev n @ slash # rev d"
    using n(1,3) by (rule dropWhile_head)
  have 2: "takeWhile (\<lambda>c. c \<noteq> slash) (rev n @ slash # rev d) = rev n"
    using n(2) by (intro takeWhile_stop) auto
  show ?thesis
    by (simp only: path_basename_def rev_append rev.simps append.simps append_assoc 1 2 rev_rev_ident)
qed


lemma path_basename_simple:
  assumes "simpleName n"
  shows "path_basename n = n"
proof -
  have "n \<noteq> []" and free: "slash \<notin> set n"
    using assms by (simp_all add: simpleName_def)
  then have "last n \<in> set n" by simp
  with free have "last n \<noteq> slash" by metis
  with \<open>n \<noteq> []\<close> have 1: "dropWhile (\<lambda>c. c = slash) (rev n) = rev n"
    by (cases "rev n") (auto simp: hd_rev)
  have 2: "takeWhile (\<lambda>c. c \<noteq> slash) (rev n) = rev n"
    using free by (intro takeWhile_eq_all_conv [THEN iffD2]) auto
  show ?thesis
    by (simp only: path_basename_def 1 2 rev_rev_ident)
qed

lemma path_extname_basename:
  "path_basename p = path_basename q \<Longrightarrow> path_extname p = path_extname q"
  by (simp only: path_extname_def)

lemma path_extname_child:
  assumes "simpleName n"
  shows "path_extname (d @ slash # n) = path_extname n"
  by (rule path_extname_basename)
     (simp only: path_basename_child [OF assms] path_basename_simple [OF assms])

lemma path_dirname_child:
  assumes "simpleName n" and "d \<noteq> []" and "d \<noteq> [slash]"
  shows "path_dirname (d @ slash # n) = d"
proof -
  obtain c ds where d: "d = c # ds" using assms(2) by (cases d) auto
  have "n \<noteq> []" and free: "slash \<notin> set n"
    using assms(1) by (simp_all add: simpleName_def)
  then have "last n \<in> set n" by simp
  with free have "last n \<noteq> slash" by metis
  with \<open>n \<noteq> []\<close> free have n: "rev n \<noteq> []" "slash \<notin> set (rev n)" "hd (rev n) \<noteq> slash"
    by (simp_all add: hd_rev)
  have r: "rev (ds @ slash # n) = rev n @ slash # rev ds" by simp
  have 1: "dropWhile (\<lambda>x. x = slash) (rev n @ slash # rev ds) = rev n @ slash # rev ds"
    using n(1,3) by (rule dropWhile_head)
  have 2: "dropWhile (\<lambda>x. x \<noteq> slash) (rev n @ slash # rev ds) = slash # rev ds"
    using n(2) by (intro dropWhile_stop) auto
  have cut: "dropWhile (\<lambda>x. x \<noteq> slash) (dropWhile (\<lambda>x. x = slash) (rev (ds @ slash # n)))
             = slash # rev ds"
    by (simp only: r 1 2)
  have "path_dirname (c # (ds @ slash # n)) =
          (if c = slash \<and> tl (slash # rev ds) = [] then [slash, slash]
           else c # rev (tl (slash # rev ds)))"
    using path_dirname_cut [of "ds @ slash # n" c] by (simp only: cut) simp
  moreover have "\<not> (c = slash \<and> ds = [])" using assms(3) d by simp
  ultimately show ?thesis using d by auto
qed

lemma path_dirname_root_child:
  assumes "simpleName n"
  shows "path_dirname (slash # n) = [slash]"
proof -
  have "n \<noteq> []" and free: "slash \<notin> set n"
    using assms(1) by (simp_all add: simpleName_def)
  then have "last n \<in> set n" by simp
  with free have "last n \<noteq> slash" by metis
  with \<open>n \<noteq> []\<close> have 1: "dropWhile (\<lambda>c. c = slash) (rev n) = rev n"
    by (cases "rev n") (auto simp: hd_rev)
  have 2: "dropWhile (\<lambda>c. c \<noteq> slash) (rev n) = []"
    using free by auto
  have "dropWhile (\<lambda>x. x \<noteq> slash) (dropWhile (\<lambda>x. x = slash) (rev n)) = []"
    by (simp only: 1 2)
  from path_dirname_no_cut [OF this, of slash] show ?thesis by simp
qed


lemma joinWith_Cons:
  "joinWith sep (x # xs) = x @ (if xs = [] then [] else sep @ joinWith sep xs)"
  by (cases xs) auto

lemma splitOn_not_Nil: "splitOn sep s \<noteq> []"
  by (induction s) (auto split: list.splits)

lemma splitOn_append_sep: "splitOn sep (xs @ sep # ys) = splitOn sep xs @ splitOn sep ys"
proof (induction xs)
  case Nil
  show ?case by simp
next
  case (Cons c xs)
  obtain l ls where "splitOn sep xs = l # ls"
    using splitOn_not_Nil [of sep xs] by (cases "splitOn sep xs") auto
  with Cons show ?case by simp
qed

lemma splitOn_free: "sep \<notin> set n \<Longrightarrow> splitOn sep n = [n]"
  by (induction n) auto

lemma normStep_simple: "simpleName n \<Longrightarrow> normStep b st n = st @ [n]"
  by (simp add: normStep_def simpleName_def)

lemma normStep_nonempty: "[] \<notin> set st \<Longrightarrow> [] \<notin> set (normStep b st seg)"
  by (auto simp: normStep_def dest: in_set_butlastD)

lemma foldl_normStep_nonempty: "[] \<notin> set st \<Longrightarrow> [] \<notin> set (foldl (normStep b) st segs)"
  by (induction segs arbitrary: st) (simp_all add: normStep_nonempty)

lemma joinWith_snoc: "st \<noteq> [] \<Longrightarrow> joinWith sep (st @ [n]) = joinWith sep st @ sep @ n"
  by (induction st) (auto simp: joinWith_Cons)

lemma joinWith_eq_Nil: "[] \<notin> set st \<Longrightarrow> joinWith sep st = [] \<Longrightarrow> st = []"
  by (cases st) (auto simp: joinWith_Cons)

lemma path_join_child:
  assumes "canonicalDir d" and "simpleName n"
  shows "path_join d n = (if d = [slash] then slash # n else d @ slash # n)"
proof -
  have d: "d \<noteq> []" "hd d = slash" "path_normalize d = d" "d = [slash] \<or> last d \<noteq> slash"
    using assms(1) by (simp_all add: canonicalDir_def)
  have n: "n \<noteq> []" "slash \<notin> set n"
    using assms(2) by (simp_all add: simpleName_def)
  then have "last n \<in> set n" by simp
  with n have lastn: "last n \<noteq> slash" by metis
  define st where "st = foldl (normStep False) [] (splitOn slash d)"
  have st_ne: "[] \<notin> set st"
    unfolding st_def by (rule foldl_normStep_nonempty) simp
  have segs: "foldl (normStep False) [] (splitOn slash (d @ slash # n)) = st @ [n]"
    by (simp add: splitOn_append_sep splitOn_free [OF n(2)] normStep_simple [OF assms(2)] st_def)
  have res: "normalizeString (d @ slash # n) False = joinWith [slash] (st @ [n])"
    by (simp add: normalizeString_def segs)
  have res_ne: "joinWith [slash] (st @ [n]) \<noteq> []"
    using n(1) by (cases st) (auto simp: joinWith_Cons)
  have join: "path_join d n = slash # joinWith [slash] (st @ [n])"
    using d(1,2) n(1) lastn res res_ne
    by (simp add: path_join_def path_normalize_def Let_def)
  have dn: "path_normalize d =
      (if joinWith [slash] st = [] then [slash]
       else slash # (if last d = slash then joinWith [slash] st @ [slash] else joinWith [slash] st))"
    using d(1,2) by (simp add: path_normalize_def Let_def normalizeString_def st_def)
  show ?thesis
  proof (cases "joinWith [slash] st = []")
    case True
    then have "st = []" using st_ne by (rule joinWith_eq_Nil [rotated])
    moreover have "d = [slash]" using dn d(3) True by simp
    ultimately show ?thesis using join by simp
  next
    case False
    then have stn: "st \<noteq> []" by auto
    have dd: "d = slash # (if last d = slash then joinWith [slash] st @ [slash] else joinWith [slash] st)"
      using dn d(3) False by simp
    then have "d \<noteq> [slash]" using False by (auto split: if_splits)
    with d(4) have "last d \<noteq> slash" by simp
    with dd have "d = slash # joinWith [slash] st" by simp
    then show ?thesis
      using join \<open>d \<noteq> [slash]\<close> joinWith_snoc [OF stn, of "[slash]" n] by simp
  qed
qed

lemma child_path:
  assumes "canonicalDir d" and "simpleName n"
  shows "path_basename (path_join d n) = n"
    and "path_dirname (path_join d n) = d"
    and "path_extname (path_join d n) = path_extname n"
proof -
  have d: "d \<noteq> []" using assms(1) by (simp add: canonicalDir_def)
  show "path_basename (path_join d n) = n"
    using path_basename_child [OF assms(2), of d] path_basename_child [OF assms(2), of "[]"]
    by (simp add: path_join_child [OF assms])
  show "path_dirname (path_join d n) = d"
    using path_dirname_child [OF assms(2) d] path_dirname_root_child [OF assms(2)]
    by (simp add: path_join_child [OF assms])
  show "path_extname (path_join d n) = path_extname n"
    using path_extname_child [OF assms(2), of d] path_extname_child [OF assms(2), of "[]"]
    by (simp add: path_join_child [OF assms])
qed


section \<open>The importance score\<close>

text \<open>
  Claim C5. The importance score is meant to be 10 for every file name that contains an
  importance keyword, compared without regard to case, and \<open>README\<close> is one of the
  keywords. The code lower-cases the file name only: the keywords \<open>README\<close> and
  \<open>Dockerfile\<close> keep their capitals and never occur in a lower-cased name. The file
  \<open>README.md\<close> contains the keyword and scores 5.
\<close>

theorem calculateImportance_readme:
  "str_includes ''README.md'' ''README''
   \<and> calculateImportance ''README.md'' (path_extname ''README.md'') = 5"
  by (simp add: calculateImportance_def importantFiles_def str_simps
      path_extname_def path_basename_def slash_def dot_def)

lemma calculateImportance_keyword_first:
  "calculateImportance ''index.test.ts'' ''.ts'' = 10"
  by (simp add: calculateImportance_def importantFiles_def str_simps)


section \<open>The change-driven refresh plan\<close>

lemma set_jsSet: "set (jsSet xs) = set xs"
  by (induction xs) auto

lemma distinct_jsSet: "distinct (jsSet xs)"
  by (induction xs) (auto simp: set_jsSet)

lemma analyzeEach_dirs:
  "analyzeEach L w now config dirs = Inr (done', w') \<Longrightarrow> done' = dirs"
  by (induction dirs arbitrary: w done' w') (auto split: sum.splits prod.splits)

lemma set_getChangedFiles:
  "set (getChangedFiles w projectRoot) =
     (case gitStatus w projectRoot of
        None \<Rightarrow> {}
      | Some st \<Rightarrow> set (modified st) \<union> set (created st) \<union> snd ` set (renamed st))"
  by (auto simp: getChangedFiles_def split: option.splits)

text \<open>
  Claim C6. The directories the change-driven refresh iterates over are exactly the
  parent directories of the files version control reports as modified, created or
  renamed (under the new name), each once. In an initialised project, when no file is
  reported the plan is empty, nothing is analyzed and the world is left as it was; and
  a refresh that completes has analyzed the planned directories, joined to the project
  root, and no other.
\<close>

theorem refresh_plan_is_changed_parents:
  "set (changedDirectories (getChangedFiles w projectRoot)) =
     path_dirname `
       (case gitStatus w projectRoot of
          None \<Rightarrow> {}
        | Some st \<Rightarrow> set (modified st) \<union> set (created st) \<union> snd ` set (renamed st))
   \<and> distinct (changedDirectories (getChangedFiles w projectRoot))
   \<and> (pathExists w (path_join projectRoot ''.codecontext.json'') \<longrightarrow>
        (getChangedFiles w projectRoot = [] \<longrightarrow>
           changedDirectories (getChangedFiles w projectRoot) = []
           \<and> refreshCommand L w now projectRoot (Some cfg) \<lparr>opt_all = False, opt_path = None\<rparr>
               = Inr ([], w))
        \<and> (\<forall>dirs w'.
             refreshCommand L w now projectRoot (Some cfg) \<lparr>opt_all = False, opt_path = None\<rparr>
               = Inr (dirs, w') \<longrightarrow>
             dirs = map (path_join projectRoot) (changedDirectories (getChangedFiles w projectRoot))))"
proof (intro conjI impI allI)
  show "set (changedDirectories (getChangedFiles w projectRoot)) =
     path_dirname `
       (case gitStatus w projectRoot of
          None \<Rightarrow> {}
        | Some st \<Rightarrow> set (modified st) \<union> set (created st) \<union> snd ` set (renamed st))"
    by (simp add: changedDirectories_def set_jsSet set_getChangedFiles)
  show "distinct (changedDirectories (getChangedFiles w projectRoot))"
    by (simp add: changedDirectories_def distinct_jsSet)
next
  assume "getChangedFiles w projectRoot = []"
  then show "changedDirectories (getChangedFiles w projectRoot) = []"
    by (simp add: changedDirectories_def)
next
  assume "pathExists w (path_join projectRoot ''.codecontext.json'')"
    and "getChangedFiles w projectRoot = []"
  then show "refreshCommand L w now projectRoot (Some cfg) \<lparr>opt_all = False, opt_path = None\<rparr>
      = Inr ([], w)"
    by (simp add: refreshCommand_def requestedPath_def)
next
  fix dirs w'
  assume ex: "pathExists w (path_join projectRoot ''.codecontext.json'')"
    and run: "refreshCommand L w now projectRoot (Some cfg) \<lparr>opt_all = False, opt_path = None\<rparr>
      = Inr (dirs, w')"
  show "dirs = map (path_join projectRoot) (changedDirectories (getChangedFiles w projectRoot))"
  proof (cases "getChangedFiles w projectRoot = []")
    case True
    with ex run show ?thesis
      by (simp add: refreshCommand_def requestedPath_def changedDirectories_def)
  next
    case False
    with ex run have "analyzeEach L w now cfg
        (map (path_join projectRoot) (changedDirectories (getChangedFiles w projectRoot)))
      = Inr (dirs, w')"
      by (simp add: refreshCommand_def requestedPath_def Let_def)
    then show ?thesis by (rule analyzeEach_dirs)
  qed
qed

theorem refresh_plan_witness:
  "changedDirectories (getChangedFiles projWorld ''/proj'') = [''src'', ''.'', ''src/lib'']
   \<and> pathExists quietWorld (path_join ''/proj'' ''.codecontext.json'')
   \<and> getChangedFiles quietWorld ''/proj'' = []
   \<and> refreshCommand exampleLibraries quietWorld 0 ''/proj'' (Some exampleConfig)
        \<lparr>opt_all = False, opt_path = None\<rparr> = Inr ([], quietWorld)"
proof -
  have plan: "changedDirectories (getChangedFiles projWorld ''/proj'') = [''src'', ''.'', ''src/lib'']"
    by (simp add: changedDirectories_def getChangedFiles_def projWorld_def path_dirname_def
        slash_def dot_def)
  have ex: "pathExists quietWorld (path_join ''/proj'' ''.codecontext.json'')"
    by (simp add: pathExists_def quietWorld_def projWorld_def path_simps)
  have none: "getChangedFiles quietWorld ''/proj'' = []"
    by (simp add: getChangedFiles_def quietWorld_def)
  show ?thesis
    using refresh_plan_is_changed_parents [of quietWorld "''/proj''" exampleLibraries 0 exampleConfig]
      plan ex none by simp
qed


section \<open>What a completed analysis consists of\<close>

lemma dropIgnored_Inr:
  assumes "dropIgnored L config files = Inr kept"
  shows "kept = filter (\<lambda>file. ignores L (ignorePatterns config) file = Some False) files"
    and "\<forall>file \<in> set files. ignores L (ignorePatterns config) file \<noteq> None"
  using assms
  by (induction files arbitrary: kept) (auto split: option.splits sum.splits if_splits)


lemma listedFiles_Inr:
  assumes "listedFiles L config files = Inr kept"
  shows "kept = filter (\<lambda>file. \<not> startsWith file ''.'')
                  (filter (\<lambda>file. ignores L (ignorePatterns config) file = Some False) files)"
    and "\<forall>file \<in> set files. ignores L (ignorePatterns config) file \<noteq> None"
  using assms dropIgnored_Inr [of L config files]
  by (auto simp: listedFiles_def split: sum.splits)


lemma keyFiles_assembleAnalysis:
  "keyFiles (assembleAnalysis L config dirPath fas deps ps changes pu)
   = take 10 (jsSort compareImportance fas)"
  by (simp add: assembleAnalysis_def Let_def)


lemma analyzeDirectory_Inr:
  assumes "analyzeDirectory L w now dirPath config = Inr (a, w')"
  obtains files kept fas deps ps pu where
    "readdir w dirPath = Some files"
    "listedFiles L config files = Inr kept"
    "analyzeFiles L w config dirPath kept = Inr (fas, deps, ps)"
    "getDirectoryPurpose w dirPath = Inr pu"
    "a = assembleAnalysis L config dirPath fas deps ps (collectRecentChanges w dirPath) pu"
    "writeFile w (path_join dirPath ''claude.md'') (generateDocumentation L a config) now = Inr w'"
  using assms
  by (auto simp: analyzeDirectory_def Let_def split: option.splits sum.splits prod.splits)

lemma analyzeDirectory_InrI:
  assumes "readdir w dirPath = Some files"
    and "listedFiles L config files = Inr kept"
    and "analyzeFiles L w config dirPath kept = Inr (fas, deps, ps)"
    and "getDirectoryPurpose w dirPath = Inr pu"
    and "a = assembleAnalysis L config dirPath fas deps ps (collectRecentChanges w dirPath) pu"
    and "writeFile w (path_join dirPath ''claude.md'') (generateDocumentation L a config) now = Inr w'"
  shows "analyzeDirectory L w now dirPath config = Inr (a, w')"
  using assms by (simp add: analyzeDirectory_def Let_def)


section \<open>Ranking of the key files\<close>

lemma set_sortInsert: "set (sortInsert cmp x ys) = insert x (set ys)"
  by (induction ys) auto

lemma set_jsSort: "set (jsSort cmp xs) = set xs"
  by (induction xs) (auto simp: set_sortInsert)

lemma length_sortInsert: "length (sortInsert cmp x ys) = Suc (length ys)"
  by (induction ys) auto

lemma length_jsSort: "length (jsSort cmp xs) = length xs"
  by (induction xs) (auto simp: length_sortInsert)

lemma sorted_sortInsert:
  "sorted_wrt (\<lambda>a b. importance b \<le> importance a) ys \<Longrightarrow>
   sorted_wrt (\<lambda>a b. importance b \<le> importance a) (sortInsert compareImportance x ys)"
  by (induction ys) (auto simp: set_sortInsert compareImportance_def)

lemma sorted_jsSort:
  "sorted_wrt (\<lambda>a b. importance b \<le> importance a) (jsSort compareImportance xs)"
  by (induction xs) (auto simp: sorted_sortInsert)

lemma filter_sortInsert:
  "filter (\<lambda>f. importance f = k) (sortInsert compareImportance x ys)
   = filter (\<lambda>f. importance f = k) (x # ys)"
  by (induction ys) (auto simp: compareImportance_def)

lemma filter_jsSort:
  "filter (\<lambda>f. importance f = k) (jsSort compareImportance xs) = filter (\<lambda>f. importance f = k) xs"
  by (induction xs) (auto simp: filter_sortInsert)

lemma filter_take_prefix: "prefix (filter P (take n xs)) (filter P xs)"
proof -
  have "filter P xs = filter P (take n xs) @ filter P (drop n xs)"
    by (metis append_take_drop_id filter_append)
  then show ?thesis by (simp add: prefix_def)
qed

lemma sorted_wrt_take: "sorted_wrt R xs \<Longrightarrow> sorted_wrt R (take n xs)"
  by (metis append_take_drop_id sorted_wrt_append)

lemma analyzeFile_path:
  "analyzeFile L w config p = Inr (f, deps, ps) \<Longrightarrow> fa_path f = p"
  by (auto simp: analyzeFile_def getFileInfo_def Let_def split: sum.splits option.splits if_splits)

lemma analyzeFiles_paths:
  "analyzeFiles L w config d names = Inr (fas, deps, ps) \<Longrightarrow> f \<in> set fas \<Longrightarrow>
   \<exists>name \<in> set names. fa_path f = path_join d name"
proof (induction names arbitrary: fas deps ps)
  case Nil
  then show ?case by simp
next
  case (Cons name names)
  show ?case
  proof (cases "stat w (path_join d name)")
    case None
    with Cons.prems show ?thesis by simp
  next
    case (Some st)
    show ?thesis
    proof (cases "isFile st")
      case False
      with Some Cons.prems have "analyzeFiles L w config d names = Inr (fas, deps, ps)"
        by simp
      from Cons.IH [OF this Cons.prems(2)] show ?thesis by auto
    next
      case True
      with Some Cons.prems obtain fi ds1 ps1 fas' ds2 ps2 where
        one: "analyzeFile L w config (path_join d name) = Inr (fi, ds1, ps1)"
        and rest: "analyzeFiles L w config d names = Inr (fas', ds2, ps2)"
        and fas: "fas = fi # fas'"
        by (auto split: sum.splits prod.splits)
      from Cons.prems(2) fas consider "f = fi" | "f \<in> set fas'" by auto
      then show ?thesis
      proof cases
        case 1
        with analyzeFile_path [OF one] show ?thesis by simp
      next
        case 2
        from Cons.IH [OF rest this] show ?thesis by auto
      qed
    qed
  qed
qed

text \<open>
  Whenever \<open>analyzeDirectory\<close> returns a record, its \<open>keyFiles\<close> are the first ten of
  the analyzed files in descending order of importance, files of equal importance in
  the order in which the directory listed them; and every key file is a child whose
  name the ignore filter did not reject.
\<close>

lemma keyFiles_sorted_stable:
  assumes "analyzeDirectory L w now dirPath config = Inr (a, w')"
  shows "\<exists>files kept fileAnalyses deps parsed.
           readdir w dirPath = Some files
         \<and> listedFiles L config files = Inr kept
         \<and> analyzeFiles L w config dirPath kept = Inr (fileAnalyses, deps, parsed)
         \<and> keyFiles a = take 10 (jsSort compareImportance fileAnalyses)
         \<and> sorted_wrt (\<lambda>x y. importance y \<le> importance x) (jsSort compareImportance fileAnalyses)
         \<and> (\<forall>k. filter (\<lambda>f. importance f = k) (jsSort compareImportance fileAnalyses)
                  = filter (\<lambda>f. importance f = k) fileAnalyses)
         \<and> sorted_wrt (\<lambda>x y. importance y \<le> importance x) (keyFiles a)
         \<and> (\<forall>k. prefix (filter (\<lambda>f. importance f = k) (keyFiles a))
                        (filter (\<lambda>f. importance f = k) fileAnalyses))
         \<and> length (keyFiles a) = min 10 (length fileAnalyses)
         \<and> (\<forall>f \<in> set (keyFiles a). \<exists>file \<in> set files.
                fa_path f = path_join dirPath file
              \<and> ignores L (ignorePatterns config) file = Some False)"
proof -
  from assms obtain files kept fas deps ps pu where files: "readdir w dirPath = Some files"
    and kept: "listedFiles L config files = Inr kept"
    and loop: "analyzeFiles L w config dirPath kept = Inr (fas, deps, ps)"
    and a: "a = assembleAnalysis L config dirPath fas deps ps (collectRecentChanges w dirPath) pu"
    by (rule analyzeDirectory_Inr)
  have key: "keyFiles a = take 10 (jsSort compareImportance fas)"
    by (simp add: a keyFiles_assembleAnalysis)
  have sorted: "sorted_wrt (\<lambda>x y. importance y \<le> importance x) (keyFiles a)"
    unfolding key by (rule sorted_wrt_take) (rule sorted_jsSort)
  have stable: "prefix (filter (\<lambda>f. importance f = k) (keyFiles a))
                       (filter (\<lambda>f. importance f = k) fas)" for k
    using filter_take_prefix [of "\<lambda>f. importance f = k" 10 "jsSort compareImportance fas"]
    by (simp add: key filter_jsSort)
  have len: "length (keyFiles a) = min 10 (length fas)"
    by (simp add: key length_jsSort min.commute)
  have sub: "set (keyFiles a) \<subseteq> set fas"
    unfolding key using set_take_subset [of 10 "jsSort compareImportance fas"]
    by (simp add: set_jsSort)
  have accepted: "\<exists>file \<in> set files. fa_path f = path_join dirPath file
                \<and> ignores L (ignorePatterns config) file = Some False"
    if "f \<in> set (keyFiles a)" for f
  proof -
    from that sub have "f \<in> set fas" by auto
    from analyzeFiles_paths [OF loop this] obtain name where
      "name \<in> set kept" "fa_path f = path_join dirPath name"
      by auto
    then show ?thesis using listedFiles_Inr(1) [OF kept] by auto
  qed
  from files kept loop key sorted stable len accepted sorted_jsSort [of fas] filter_jsSort [of _ fas]
  show ?thesis
    by (intro exI [of _ files] exI [of _ kept] exI [of _ fas] exI [of _ deps] exI [of _ ps]) auto
qed

text \<open>
  Claim C1. The ranking, the stability and the bound of ten hold as claimed, but a
  path the ignore filter rejects does get among the key files: the analyzer asks the
  filter about the bare name of each child, while the configured patterns, like the
  walk over the project, speak about paths relative to the project root. With the
  default pattern \<open>dist/**\<close> the filter rejects \<open>dist/bundle.js\<close> and accepts \<open>bundle.js\<close>;
  when \<open>dist/bundle.js\<close> has changed, the refresh analyzes \<open>/proj/dist\<close> and the
  rejected file is its key file.
\<close>

theorem ignored_path_among_keyFiles:
  "ignores exampleLibraries (ignorePatterns exampleConfig) ''dist/bundle.js'' = Some True
   \<and> ignores exampleLibraries (ignorePatterns exampleConfig) ''bundle.js'' = Some False
   \<and> map (path_join ''/proj'') (changedDirectories (getChangedFiles builtWorld ''/proj''))
       = [''/proj/dist'']
   \<and> path_join ''/proj'' ''dist/bundle.js'' = ''/proj/dist/bundle.js''
   \<and> (case analyzeDirectory exampleLibraries builtWorld 50 ''/proj/dist'' exampleConfig of
         Inl e \<Rightarrow> None
       | Inr (a, w') \<Rightarrow> Some (map fa_path (keyFiles a)))
       = Some [''/proj/dist/bundle.js'']"
  by code_simp


section \<open>Parsing files without declarations\<close>

lemma parse_empty_content:
  assumes "importRegex re content = []" "defaultImportRegex re content = []"
    "exportRegex re content = []" "exportDefaultRegex re content = []"
    "functionRegex re content = []" "arrowFunctionRegex re content = []"
    "classRegex re content = []" "interfaceRegex re content = []"
  shows "parseInterfaces re content
           (parseClasses re content
             (parseFunctions re content
               (parseExports re content (parseImports re content emptyParsedFile))))
         = emptyParsedFile"
  using assms
  by (simp add: parseInterfaces_def parseClasses_def parseFunctions_def parseExports_def
      parseImports_def emptyParsedFile_def)

lemma determinePurpose_empty:
  assumes "stem = toLowerCase (path_basename_ext fileName (path_extname fileName))"
    "stem \<noteq> ''index''" "\<not> str_includes stem ''test''" "\<not> str_includes stem ''spec''"
  shows "determinePurpose emptyParsedFile fileName = ''Module implementation''"
  using assms by (simp add: determinePurpose_def emptyParsedFile_def Let_def)

text \<open>
  Claim C4, as amended. A source file with an allow-listed extension that can be read,
  in whose text none of the parser's patterns finds an import, export, function, class
  or interface, and whose file-name stem in lower case is not \<open>index\<close> and contains
  neither \<open>test\<close> nor \<open>spec\<close>, parses to a Parsed File with five empty sequences and the
  purpose \<open>Module implementation\<close>.
\<close>

theorem parse_without_declarations:
  assumes "path_extname filePath \<in> set sourceExtensions"
    and "readFile w filePath = Some content"
    and "importRegex re content = []" and "defaultImportRegex re content = []"
    and "exportRegex re content = []" and "exportDefaultRegex re content = []"
    and "functionRegex re content = []" and "arrowFunctionRegex re content = []"
    and "classRegex re content = []" and "interfaceRegex re content = []"
    and "stem = toLowerCase (path_basename_ext (path_basename filePath)
                               (path_extname (path_basename filePath)))"
    and "stem \<noteq> ''index''" and "\<not> str_includes stem ''test''"
    and "\<not> str_includes stem ''spec''"
  shows "parseSourceFile re w filePath =
           Some \<lparr>pf_imports = [], pf_exports = [], pf_functions = [], pf_classes = [],
                 pf_interfaces = [], mainPurpose = ''Module implementation''\<rparr>"
proof -
  have "parseSourceFile re w filePath =
          Some (emptyParsedFile\<lparr>mainPurpose :=
                  determinePurpose emptyParsedFile (path_basename filePath)\<rparr>)"
    using assms(1,2) parse_empty_content [OF assms(3-10)]
    by (simp add: parseSourceFile_def Let_def)
  also have "determinePurpose emptyParsedFile (path_basename filePath) = ''Module implementation''"
    using assms(11-14) by (rule determinePurpose_empty)
  finally show ?thesis by (simp add: emptyParsedFile_def)
qed


text \<open>
  Claim C4 as stated fails: \<open>determinePurpose\<close> lower-cases the stem before it compares.
  \<open>Index.ts\<close> has the stem \<open>Index\<close>, which is not \<open>index\<close> and contains neither \<open>test\<close>
  nor \<open>spec\<close>, yet the file is classified as a module entry point; \<open>MyTest.ts\<close> is
  classified as a test suite.
\<close>

theorem parse_capitalised_stem:
  "path_extname ''/work/caps/Index.ts'' \<in> set sourceExtensions
   \<and> readFile capsWorld ''/work/caps/Index.ts'' = Some ''const a = 1''
   \<and> importRegex exampleRegex ''const a = 1'' = []
   \<and> defaultImportRegex exampleRegex ''const a = 1'' = []
   \<and> exportRegex exampleRegex ''const a = 1'' = []
   \<and> exportDefaultRegex exampleRegex ''const a = 1'' = []
   \<and> functionRegex exampleRegex ''const a = 1'' = []
   \<and> arrowFunctionRegex exampleRegex ''const a = 1'' = []
   \<and> classRegex exampleRegex ''const a = 1'' = []
   \<and> interfaceRegex exampleRegex ''const a = 1'' = []
   \<and> path_basename_ext (path_basename ''/work/caps/Index.ts'')
        (path_extname (path_basename ''/work/caps/Index.ts'')) = ''Index''
   \<and> ''Index'' \<noteq> ''index''
   \<and> \<not> str_includes ''Index'' ''test''
   \<and> \<not> str_includes ''Index'' ''spec''
   \<and> parseSourceFile exampleRegex capsWorld ''/work/caps/Index.ts'' =
        Some \<lparr>pf_imports = [], pf_exports = [], pf_functions = [], pf_classes = [],
              pf_interfaces = [], mainPurpose = ''Module entry point that exports public API''\<rparr>
   \<and> parseSourceFile exampleRegex capsWorld ''/work/caps/MyTest.ts'' =
        Some \<lparr>pf_imports = [], pf_exports = [], pf_functions = [], pf_classes = [],
              pf_interfaces = [], mainPurpose = ''Test suite for unit testing''\<rparr>"
  by code_simp

theorem parse_without_declarations_witness:
  "parseSourceFile exampleRegex loneWorld ''/work/lone/a.ts'' =
     Some \<lparr>pf_imports = [], pf_exports = [], pf_functions = [], pf_classes = [],
           pf_interfaces = [], mainPurpose = ''Module implementation''\<rparr>
   \<and> path_extname ''/work/lone/a.ts'' = ''.ts''
   \<and> toLowerCase (path_basename_ext (path_basename ''/work/lone/a.ts'')
                     (path_extname (path_basename ''/work/lone/a.ts''))) = ''a''"
proof -
  have ext: "path_extname ''/work/lone/a.ts'' = ''.ts''" by code_simp
  have stem: "toLowerCase (path_basename_ext (path_basename ''/work/lone/a.ts'')
                     (path_extname (path_basename ''/work/lone/a.ts''))) = ''a''" by code_simp
  have rd: "readFile loneWorld ''/work/lone/a.ts'' = Some ''const a = 1''"
    by (simp add: loneWorld_def)
  show ?thesis
    using parse_without_declarations [of "''/work/lone/a.ts''" loneWorld "''const a = 1''"
        exampleRegex "''a''"] ext stem rd
    by (simp add: sourceExtensions_def exampleRegex_def startsWith_def)
qed


section \<open>Files the parser does not handle\<close>







section \<open>Primary functions of parsed files\<close>

text \<open>
  Claim C3. The analyzer replaces the describer's guess whenever the parser found any
  function, exported or not, by the first three exported ones. \<open>helper.ts\<close> declares one
  private function and exports none: the claim keeps the guess
  \<open>General functionality\<close>, the code leaves the list of primary functions empty.
\<close>

theorem private_functions_erase_guess:
  "\<exists>parsed f deps ps.
     parseSourceFile (regex exampleLibraries) projWorld ''/proj/src/helper.ts'' = Some parsed
   \<and> map fn_name (pf_functions parsed) = [''helper'']
   \<and> filter fn_isExported (pf_functions parsed) = []
   \<and> getPrimaryFunctions ''helper.ts'' ''.ts'' = [''General functionality'']
   \<and> analyzeFile exampleLibraries projWorld exampleConfig ''/proj/src/helper.ts'' = Inr (f, deps, ps)
   \<and> primaryFunctions f = []"
proof -
  have a: "parseSourceFile (regex exampleLibraries) projWorld ''/proj/src/helper.ts'' =
      Some \<lparr>pf_imports = [], pf_exports = [],
        pf_functions = [\<lparr>fn_name = ''helper'', params = [], isAsync = False, fn_isExported = False\<rparr>],
        pf_classes = [], pf_interfaces = [], mainPurpose = ''Module implementation''\<rparr>"
    by code_simp
  have b: "getPrimaryFunctions ''helper.ts'' ''.ts'' = [''General functionality'']"
    by code_simp
  have c: "analyzeFile exampleLibraries projWorld exampleConfig ''/proj/src/helper.ts'' =
      Inr (\<lparr>fa_path = ''/proj/src/helper.ts'', fa_description = Text ''Module implementation'',
             importance = 7, primaryFunctions = [], lastModified = 2\<rparr>, [],
           [(''/proj/src/helper.ts'',
             \<lparr>pf_imports = [], pf_exports = [],
               pf_functions = [\<lparr>fn_name = ''helper'', params = [], isAsync = False, fn_isExported = False\<rparr>],
               pf_classes = [], pf_interfaces = [], mainPurpose = ''Module implementation''\<rparr>)])"
    by code_simp
  show ?thesis
    using a b c by simp
qed

lemma analyzeFile_primaryFunctions:
  assumes "getFileInfo w p = Inr fi" and "parseSourceFile (regex L) w p = Some parsed"
  shows "\<exists>f deps ps. analyzeFile L w config p = Inr (f, deps, ps)
     \<and> primaryFunctions f =
         (if pf_functions parsed \<noteq> [] then
            take 3 (map renderSignature (filter fn_isExported (pf_functions parsed)))
          else primaryFunctions fi)"
  using assms by (simp add: analyzeFile_def Let_def)


section \<open>Directories outside version control\<close>








lemma writeFile_succeeds:
  assumes "writable w p"
  shows "\<exists>w'. writeFile w p data now = Inr w'"
  using assms by (auto simp: writable_def writeFile_def split: option.splits)










section \<open>The project-wide context view\<close>

lemma first_lines_prefix: "prefix (joinWith [sep] (take n (splitOn sep s))) s"
proof (induction s arbitrary: n)
  case Nil
  show ?case by (cases n) auto
next
  case (Cons c cs)
  show ?case
  proof (cases n)
    case 0
    then show ?thesis by simp
  next
    case (Suc m)
    show ?thesis
    proof (cases "c = sep")
      case True
      then show ?thesis
        using Cons [of m] Suc by (simp add: joinWith_Cons)
    next
      case False
      obtain l ls where split: "splitOn sep cs = l # ls"
        using splitOn_not_Nil [of sep cs] by (cases "splitOn sep cs") auto
      have "joinWith [sep] (take (Suc m) (splitOn sep (c # cs)))
            = c # joinWith [sep] (take (Suc m) (splitOn sep cs))"
        using False split by (simp add: joinWith_Cons)
      then show ?thesis
        using Cons [of "Suc m"] Suc by simp
    qed
  qed
qed

lemma splitOn_lines_free: "l \<in> set (splitOn sep s) \<Longrightarrow> sep \<notin> set l"
proof (induction s arbitrary: l)
  case Nil
  then show ?case by simp
next
  case (Cons c cs)
  obtain l' ls where split: "splitOn sep cs = l' # ls"
    using splitOn_not_Nil [of sep cs] by (cases "splitOn sep cs") auto
  show ?case
  proof (cases "c = sep")
    case True
    with Cons show ?thesis by auto
  next
    case False
    with Cons.prems split have "l = c # l' \<or> l \<in> set ls" by auto
    then show ?thesis
      using Cons.IH [of l'] Cons.IH [of l] split False by auto
  qed
qed

lemma count_joinWith:
  assumes "\<forall>l \<in> set ls. sep \<notin> set l"
  shows "length (filter (\<lambda>c. c = sep) (joinWith [sep] ls)) = length ls - 1"
  using assms
proof (induction ls)
  case Nil
  then show ?case by simp
next
  case (Cons l ls)
  then have "filter (\<lambda>c. c = sep) l = []"
    by (auto simp: filter_empty_conv)
  with Cons show ?case
    by (cases ls) (auto simp: joinWith_Cons)
qed

lemma first_lines_count:
  "length (filter (\<lambda>c. c = sep) (joinWith [sep] (take n (splitOn sep s)))) \<le> n - 1"
proof -
  have "\<forall>l \<in> set (take n (splitOn sep s)). sep \<notin> set l"
    using splitOn_lines_free [of _ sep s] by (auto dest: in_set_takeD)
  then have "length (filter (\<lambda>c. c = sep) (joinWith [sep] (take n (splitOn sep s))))
             = length (take n (splitOn sep s)) - 1"
    by (rule count_joinWith)
  then show ?thesis by simp
qed

lemma appendSummaries_readable:
  assumes "list_all (\<lambda>f. readFile w (path_join projectPath f) \<noteq> None) files"
  shows "appendSummaries w projectPath ctx files =
           Inr (ctx @ concat (map (\<lambda>f. case readFile w (path_join projectPath f) of
                                              Some content \<Rightarrow> directorySummary f content
                                            | None \<Rightarrow> []) files))"
  using assms
  by (induction files arbitrary: ctx) auto

text \<open>
  Claim C9. The project view reads only the first ten documents found: the rest of the
  list changes nothing. When the tree renders and those documents can be read, the
  view is the header followed, for each of them in turn, by a heading with the
  document's directory, the document's first ten lines (a prefix of the document with
  at most nine line breaks), and the ellipsis line.
\<close>

theorem project_context_first_ten:
  "generateProjectContext w claudeFiles projectPath
     = generateProjectContext w (take 10 claudeFiles) projectPath
   \<and> (\<forall>tree. getFileStructure w projectPath 1 = Inr tree \<longrightarrow>
        list_all (\<lambda>f. readFile w (path_join projectPath f) \<noteq> None) (take 10 claudeFiles) \<longrightarrow>
        generateProjectContext w claudeFiles projectPath =
          Inr (projectHeader tree
               @ concat (map (\<lambda>f. case readFile w (path_join projectPath f) of
                                     Some content \<Rightarrow> directorySummary f content
                                   | None \<Rightarrow> [])
                           (take 10 claudeFiles))))
   \<and> directorySummary file content =
        nl @ ''### '' @ path_dirname file @ nl
          @ joinWith nl (take 10 (splitOn (CHR 0x0A) content)) @ nl @ ''...'' @ nl @ nl
   \<and> prefix (joinWith nl (take 10 (splitOn (CHR 0x0A) content))) content
   \<and> length (filter (\<lambda>c. c = CHR 0x0A) (joinWith nl (take 10 (splitOn (CHR 0x0A) content)))) \<le> 9"
proof (intro conjI allI impI)
  show "generateProjectContext w claudeFiles projectPath
     = generateProjectContext w (take 10 claudeFiles) projectPath"
    by (simp add: generateProjectContext_def split: sum.splits)
next
  fix tree
  assume "getFileStructure w projectPath 1 = Inr tree"
    and "list_all (\<lambda>f. readFile w (path_join projectPath f) \<noteq> None) (take 10 claudeFiles)"
  then show "generateProjectContext w claudeFiles projectPath =
          Inr (projectHeader tree
               @ concat (map (\<lambda>f. case readFile w (path_join projectPath f) of
                                     Some content \<Rightarrow> directorySummary f content
                                   | None \<Rightarrow> [])
                           (take 10 claudeFiles)))"
    by (simp add: generateProjectContext_def appendSummaries_readable)
next
  show "directorySummary file content =
        nl @ ''### '' @ path_dirname file @ nl
          @ joinWith nl (take 10 (splitOn (CHR 0x0A) content)) @ nl @ ''...'' @ nl @ nl"
    by (simp add: directorySummary_def)
next
  show "prefix (joinWith nl (take 10 (splitOn (CHR 0x0A) content))) content"
    unfolding nl_def by (rule first_lines_prefix)
next
  show "length (filter (\<lambda>c. c = CHR 0x0A) (joinWith nl (take 10 (splitOn (CHR 0x0A) content)))) \<le> 9"
    unfolding nl_def using first_lines_count [of "CHR 0x0A" 10 content] by simp
qed

lemma documented_tree:
  "getFileStructure documentedWorld ''/proj'' 1 = Inr (branchConnector @ ''src'' @ nl @ lastConnector @ ''README.md'')"
  by code_simp

lemma documented_readable:
  "list_all (\<lambda>f. readFile documentedWorld (path_join ''/proj'' f) \<noteq> None) (take 10 [''src/claude.md''])"
  by code_simp

lemma documented_summary:
  "concat (map (\<lambda>f. case readFile documentedWorld (path_join ''/proj'' f) of
                       Some content \<Rightarrow> directorySummary f content
                     | None \<Rightarrow> [])
             (take 10 [''src/claude.md'']))
   = nl @ ''### src'' @ nl @ ''# src'' @ nl @ ''second line'' @ nl @ ''...'' @ nl @ nl"
  by code_simp

theorem project_context_first_ten_witness:
  "generateProjectContext documentedWorld [''src/claude.md''] ''/proj'' =
     Inr (projectHeader (branchConnector @ ''src'' @ nl @ lastConnector @ ''README.md'')
          @ nl @ ''### src'' @ nl @ ''# src'' @ nl @ ''second line'' @ nl @ ''...'' @ nl @ nl)"
  using project_context_first_ten [of documentedWorld "[''src/claude.md'']" "''/proj''"]
    documented_tree documented_readable documented_summary
  by simp


section \<open>The effect of an analysis on the directory\<close>




lemma writeFile_Inr:
  assumes "writeFile w p data now = Inr w'"
  shows "readFile w' = (readFile w)(p \<mapsto> data)"
    and "stat w' = (stat w)(p \<mapsto> \<lparr>isFile = True, isDirectory = False, mtime = now\<rparr>)"
    and "writeDenied w' = writeDenied w" and "gitLog w' = gitLog w" and "gitStatus w' = gitStatus w"
    and "readdir w' =
           (case readdir w (path_dirname p) of
              None \<Rightarrow> readdir w
            | Some names \<Rightarrow>
                (readdir w)(path_dirname p \<mapsto>
                   (if path_basename p \<in> set names then names
                    else insertAt (placement w (path_dirname p) names (path_basename p))
                           (path_basename p) names)))"
    and "placement w' = placement w"
  using assms by (auto simp: writeFile_def split: if_splits)

lemma simple_claude: "simpleName ''claude.md''"
  by (simp add: simpleName_def slash_def dot_def)

lemma extname_claude: "path_extname ''claude.md'' = ''.md''"
  by (simp add: path_extname_def path_basename_def slash_def dot_def)

lemma claude_unparsed:
  assumes "canonicalDir dirPath"
  shows "parseSourceFile re w (path_join dirPath ''claude.md'') = None"
  by (simp add: parseSourceFile_def child_path(3) [OF assms simple_claude] extname_claude
      sourceExtensions_def)

lemma claude_fileInfo:
  assumes "canonicalDir dirPath" and "stat w (path_join dirPath ''claude.md'') = Some st"
  shows "getFileInfo w (path_join dirPath ''claude.md'') =
           Inr \<lparr>fa_path = path_join dirPath ''claude.md'',
                fa_description = Text ''Markdown documentation'', importance = 5,
                primaryFunctions = [''General functionality''], lastModified = mtime st\<rparr>"
proof -
  have "getFileDescription ''claude.md'' ''.md'' = Text ''Markdown documentation''" by code_simp
  moreover have "calculateImportance ''claude.md'' ''.md'' = 5" by code_simp
  moreover have "getPrimaryFunctions ''claude.md'' ''.md'' = [''General functionality'']" by code_simp
  ultimately show ?thesis
    using assms(2)
    by (simp add: getFileInfo_def Let_def child_path(1,3) [OF assms(1) simple_claude] extname_claude)
qed

lemma claude_analyzeFile:
  assumes "canonicalDir dirPath" and "stat w (path_join dirPath ''claude.md'') = Some st"
  shows "analyzeFile L w config (path_join dirPath ''claude.md'') =
           Inr (\<lparr>fa_path = path_join dirPath ''claude.md'',
                  fa_description = Text ''Markdown documentation'', importance = 5,
                  primaryFunctions = [''General functionality''], lastModified = mtime st\<rparr>,
                [], [])"
  using claude_fileInfo [OF assms] claude_unparsed [OF assms(1)]
  by (simp add: analyzeFile_def)














section \<open>Analyzing a directory twice\<close>

lemma untimed_fields [simp]:
  "fa_path (untimed f) = fa_path f" "fa_description (untimed f) = fa_description f"
  "importance (untimed f) = importance f" "primaryFunctions (untimed f) = primaryFunctions f"
  by (simp_all add: untimed_def)

lemma sortInsert_untimed:
  "map untimed (sortInsert compareImportance x ys)
   = sortInsert compareImportance (untimed x) (map untimed ys)"
  by (induction ys) (auto simp: compareImportance_def)

lemma jsSort_untimed:
  "map untimed (jsSort compareImportance xs) = jsSort compareImportance (map untimed xs)"
  by (induction xs) (auto simp: sortInsert_untimed)

lemma renderKeyFile_untimed: "renderKeyFile (untimed f) = renderKeyFile f"
  by (simp add: renderKeyFile_def)

lemma keyFiles_rendered:
  assumes "map untimed xs = map untimed ys"
  shows "map renderKeyFile (take 10 (jsSort compareImportance xs))
       = map renderKeyFile (take 10 (jsSort compareImportance ys))"
proof -
  have "map renderKeyFile (take 10 (jsSort compareImportance (map untimed zs)))
      = map renderKeyFile (take 10 (jsSort compareImportance zs))" for zs
  proof -
    have "map renderKeyFile (take 10 (jsSort compareImportance (map untimed zs)))
        = map renderKeyFile (map untimed (take 10 (jsSort compareImportance zs)))"
      by (simp only: jsSort_untimed [symmetric] take_map)
    also have "\<dots> = map renderKeyFile (take 10 (jsSort compareImportance zs))"
      by (simp add: renderKeyFile_untimed comp_def)
    finally show ?thesis .
  qed
  from this [of xs] this [of ys] assms show ?thesis by simp
qed

lemma paths_of_untimed:
  assumes "map untimed xs = map untimed ys"
  shows "map fa_path xs = map fa_path ys"
proof -
  have "map fa_path (map untimed xs) = map fa_path (map untimed ys)" using assms by simp
  then show ?thesis by (simp add: comp_def)
qed


lemma list_ex_paths:
  assumes "map fa_path xs = map fa_path ys"
  shows "list_ex (\<lambda>f. Q (fa_path f)) xs = list_ex (\<lambda>f. Q (fa_path f)) ys"
proof -
  have aux: "list_ex (\<lambda>f. Q (fa_path f)) zs = list_ex Q (map fa_path zs)" for zs
    by (induction zs) auto
  show ?thesis by (simp only: aux assms)
qed

lemma architecture_paths:
  assumes "map fa_path xs = map fa_path ys"
  shows "generateArchitectureInsights xs deps = generateArchitectureInsights ys deps"
proof -
  have "map path_extname (map fa_path xs) = map path_extname (map fa_path ys)"
    using assms by simp
  then have 1: "map (\<lambda>f. path_extname (fa_path f)) xs = map (\<lambda>f. path_extname (fa_path f)) ys"
    by (simp add: comp_def)
  have 2: "list_ex isTestPath xs = list_ex isTestPath ys"
    using list_ex_paths [OF assms, of "\<lambda>p. str_includes p ''.test.'' \<or> str_includes p ''.spec.''"]
    by (simp add: isTestPath_def [abs_def])
  have 3: "list_ex (\<lambda>f. str_includes (fa_path f) ''.d.ts''
                        \<or> str_includes (path_basename (fa_path f)) ''types'') xs
         = list_ex (\<lambda>f. str_includes (fa_path f) ''.d.ts''
                        \<or> str_includes (path_basename (fa_path f)) ''types'') ys"
    using list_ex_paths [OF assms, of "\<lambda>p. str_includes p ''.d.ts''
                        \<or> str_includes (path_basename p) ''types''"] .
  show ?thesis
    unfolding generateArchitectureInsights_def 1 2 3 ..
qed

lemma improvements_paths:
  assumes "map fa_path xs = map fa_path ys"
  shows "generateImprovements xs deps = generateImprovements ys deps"
proof -
  have 1: "list_ex isTestPath xs = list_ex isTestPath ys"
    using list_ex_paths [OF assms, of "\<lambda>p. str_includes p ''.test.'' \<or> str_includes p ''.spec.''"]
    by (simp add: isTestPath_def [abs_def])
  have 2: "list_ex (\<lambda>f. path_extname (fa_path f) \<in> set sourceExtensions) xs
         = list_ex (\<lambda>f. path_extname (fa_path f) \<in> set sourceExtensions) ys"
    using list_ex_paths [OF assms, of "\<lambda>p. path_extname p \<in> set sourceExtensions"] .
  have 3: "list_ex (\<lambda>f. toLowerCase (path_basename (fa_path f)) = ''readme.md'') xs
         = list_ex (\<lambda>f. toLowerCase (path_basename (fa_path f)) = ''readme.md'') ys"
    using list_ex_paths [OF assms, of "\<lambda>p. toLowerCase (path_basename p) = ''readme.md''"] .
  have 4: "list_ex (\<lambda>f. path_extname (fa_path f) \<in> set [''.js'', ''.jsx'']) xs
         = list_ex (\<lambda>f. path_extname (fa_path f) \<in> set [''.js'', ''.jsx'']) ys"
    using list_ex_paths [OF assms, of "\<lambda>p. path_extname p \<in> set [''.js'', ''.jsx'']"] .
  have 5: "list_ex (\<lambda>f. str_includes (fa_path f) ''.d.ts'') xs
         = list_ex (\<lambda>f. str_includes (fa_path f) ''.d.ts'') ys"
    using list_ex_paths [OF assms, of "\<lambda>p. str_includes p ''.d.ts''"] .
  have 6: "length xs = length ys"
    using assms by (metis length_map)
  show ?thesis
    unfolding generateImprovements_def 1 2 3 4 5 6 ..
qed

lemma analyzeFile_cong:
  assumes "stat w1 p = stat w p" and "readFile w1 p = readFile w p"
  shows "analyzeFile L w1 config p = analyzeFile L w config p"
proof -
  have a: "getFileInfo w1 p = getFileInfo w p"
    using assms(1) by (simp add: getFileInfo_def)
  have b: "parseSourceFile (regex L) w1 p = parseSourceFile (regex L) w p"
    using assms(2) by (simp add: parseSourceFile_def)
  have c: "describeParsed L w1 config p parsed baseline = describeParsed L w config p parsed baseline"
    for parsed baseline
    using assms(2) by (simp add: describeParsed_def)
  show ?thesis
    unfolding analyzeFile_def a b c ..
qed

lemma findGitRoot_cong:
  "(\<And>p. pathExists w1 p = pathExists w p) \<Longrightarrow> findGitRoot w1 d = findGitRoot w d"
proof (induction w d rule: findGitRoot.induct)
  case (1 w gitRoot)
  note same = "1.prems"
  show ?case
  proof (cases "gitRoot \<noteq> path_dirname gitRoot \<and> \<not> pathExists w (path_join gitRoot ''.git'')")
    case True
    then have "findGitRoot w1 (path_dirname gitRoot) = findGitRoot w (path_dirname gitRoot)"
      using "1.IH" same by simp
    with True show ?thesis
      by (auto simp: findGitRoot.simps [of w gitRoot] findGitRoot.simps [of w1 gitRoot] same)
  next
    case False
    then show ?thesis
      by (auto simp: findGitRoot.simps [of w gitRoot] findGitRoot.simps [of w1 gitRoot] same)
  qed
qed

lemma collectRecentChanges_cong:
  assumes "\<And>p. pathExists w1 p = pathExists w p" and "gitLog w1 = gitLog w"
  shows "collectRecentChanges w1 d = collectRecentChanges w d"
proof -
  have root: "findGitRoot w1 d = findGitRoot w d"
    using assms(1) by (rule findGitRoot_cong)
  have commits: "getRecentCommits w1 r n = getRecentCommits w r n" for r n
    by (simp add: getRecentCommits_def assms(2))
  show ?thesis
    unfolding collectRecentChanges_def root assms(1) commits ..
qed

lemma analyzeFiles_rewritten:
  assumes agree: "\<And>p. p \<noteq> path_join dirPath ''claude.md'' \<Longrightarrow>
                    stat w1 p = stat w p \<and> readFile w1 p = readFile w p"
    and before: "stat w (path_join dirPath ''claude.md'') = Some st" "isFile st"
    and after: "stat w1 (path_join dirPath ''claude.md'') = Some st1" "isFile st1"
    and dir: "canonicalDir dirPath"
    and loop: "analyzeFiles L w config dirPath names = Inr (fas1, deps, ps)"
  shows "\<exists>fas2. analyzeFiles L w1 config dirPath names = Inr (fas2, deps, ps)
             \<and> map untimed fas2 = map untimed fas1"
  using loop
proof (induction names arbitrary: fas1 deps ps)
  case Nil
  then show ?case by simp
next
  case (Cons name names)
  let ?p = "path_join dirPath name"
  show ?case
  proof (cases "?p = path_join dirPath ''claude.md''")
    case True
    have one: "analyzeFile L w config ?p =
           Inr (\<lparr>fa_path = path_join dirPath ''claude.md'',
                  fa_description = Text ''Markdown documentation'', importance = 5,
                  primaryFunctions = [''General functionality''], lastModified = mtime st\<rparr>,
                [], [])"
      unfolding True using dir before(1) by (rule claude_analyzeFile)
    have one': "analyzeFile L w1 config ?p =
           Inr (\<lparr>fa_path = path_join dirPath ''claude.md'',
                  fa_description = Text ''Markdown documentation'', importance = 5,
                  primaryFunctions = [''General functionality''], lastModified = mtime st1\<rparr>,
                [], [])"
      unfolding True using dir after(1) by (rule claude_analyzeFile)
    from Cons.prems True before one obtain fas' where
      rest: "analyzeFiles L w config dirPath names = Inr (fas', deps, ps)"
      and fas1: "fas1 = \<lparr>fa_path = path_join dirPath ''claude.md'',
                  fa_description = Text ''Markdown documentation'', importance = 5,
                  primaryFunctions = [''General functionality''], lastModified = mtime st\<rparr> # fas'"
      by (auto split: sum.splits prod.splits)
    from Cons.IH [OF rest] obtain fas2' where
      "analyzeFiles L w1 config dirPath names = Inr (fas2', deps, ps)"
      "map untimed fas2' = map untimed fas'"
      by blast
    moreover have "untimed \<lparr>fa_path = path_join dirPath ''claude.md'',
                  fa_description = Text ''Markdown documentation'', importance = 5,
                  primaryFunctions = [''General functionality''], lastModified = mtime st1\<rparr>
        = untimed \<lparr>fa_path = path_join dirPath ''claude.md'',
                  fa_description = Text ''Markdown documentation'', importance = 5,
                  primaryFunctions = [''General functionality''], lastModified = mtime st\<rparr>"
      by (simp add: untimed_def)
    ultimately show ?thesis
      using True after one' fas1 by simp
  next
    case False
    from agree [OF False] have st: "stat w1 ?p = stat w ?p" and rd: "readFile w1 ?p = readFile w ?p"
      by simp_all
    have same: "analyzeFile L w1 config ?p = analyzeFile L w config ?p"
      using st rd by (rule analyzeFile_cong)
    show ?thesis
    proof (cases "stat w ?p")
      case None
      with Cons.prems show ?thesis by simp
    next
      case (Some sx)
      show ?thesis
      proof (cases "isFile sx")
        case False
        with Some Cons.prems have "analyzeFiles L w config dirPath names = Inr (fas1, deps, ps)"
          by simp
        from Cons.IH [OF this] False Some st show ?thesis by simp
      next
        case True
        with Some Cons.prems obtain fi ds1 ps1 fas' ds2 ps2 where
          one: "analyzeFile L w config ?p = Inr (fi, ds1, ps1)"
          and rest: "analyzeFiles L w config dirPath names = Inr (fas', ds2, ps2)"
          and parts: "fas1 = fi # fas'" "deps = ds1 @ ds2" "ps = ps1 @ ps2"
          by (auto split: sum.splits prod.splits)
        from Cons.IH [OF rest] obtain fas2' where
          "analyzeFiles L w1 config dirPath names = Inr (fas2', ds2, ps2)"
          "map untimed fas2' = map untimed fas'"
          by blast
        with True Some st same one parts show ?thesis by simp
      qed
    qed
  qed
qed


lemma assembleAnalysis_without_ai:
  assumes "cfg_mode config = Quick \<or> client L = None"
  shows "assembleAnalysis L config d fas deps ps changes pu =
           \<lparr>da_path = d, purpose = pu,
            architecture = generateArchitectureInsights fas deps,
            keyFiles = take 10 (jsSort compareImportance fas),
            recentChanges = changes,
            improvements = generateImprovements fas deps,
            dependencies = deps\<rparr>"
  using assms by (auto simp: assembleAnalysis_def Let_def isAvailable_def)

lemma document_untimed:
  assumes "cfg_mode config = Quick \<or> client L = None"
    and "map untimed fas2 = map untimed fas1"
  shows "specDocumentation (assembleAnalysis L config d fas2 deps ps changes pu) config
       = specDocumentation (assembleAnalysis L config d fas1 deps ps changes pu) config"
proof -
  have paths: "map fa_path fas2 = map fa_path fas1"
    using assms(2) by (rule paths_of_untimed)
  show ?thesis
    by (simp add: specDocumentation_def assembleAnalysis_without_ai [OF assms(1)]
        architecture_paths [OF paths] improvements_paths [OF paths]
        keyFiles_rendered [OF assms(2)])
qed

text \<open>
  Claim C2, as amended. With no AI collaborator, and with the document rendered as the
  spec describes it, analyzing a normalised directory that already lists its document
  \<open>claude.md\<close> as a regular file, and then analyzing it again with nothing changed in
  between, writes the same document, byte for byte, whatever the two times of writing.
\<close>

theorem reanalysis_reproduces_document:
  assumes noai: "cfg_mode config = Quick \<or> client L = None"
    and render: "generateDocumentation L = specDocumentation"
    and dir: "canonicalDir dirPath"
    and listed: "readdir w dirPath = Some files" "''claude.md'' \<in> set files"
    and was_file: "stat w (path_join dirPath ''claude.md'') = Some st" "isFile st"
    and first: "analyzeDirectory L w t1 dirPath config = Inr (a1, w1)"
  shows "\<exists>a2 w2. analyzeDirectory L w1 t2 dirPath config = Inr (a2, w2)
          \<and> readFile w1 (path_join dirPath ''claude.md'') = Some (specDocumentation a1 config)
          \<and> readFile w2 (path_join dirPath ''claude.md'')
              = readFile w1 (path_join dirPath ''claude.md'')"
proof -
  let ?doc = "path_join dirPath ''claude.md''"
  have base: "path_basename ?doc = ''claude.md''" and parent: "path_dirname ?doc = dirPath"
    using child_path(1,2) [OF dir simple_claude] by simp_all
  from first obtain files0 kept fas1 deps ps pu where files0: "readdir w dirPath = Some files0"
    and kept: "listedFiles L config files0 = Inr kept"
    and loop1: "analyzeFiles L w config dirPath kept = Inr (fas1, deps, ps)"
    and pu: "getDirectoryPurpose w dirPath = Inr pu"
    and a1: "a1 = assembleAnalysis L config dirPath fas1 deps ps (collectRecentChanges w dirPath) pu"
    and wr1: "writeFile w ?doc (generateDocumentation L a1 config) t1 = Inr w1"
    by (rule analyzeDirectory_Inr)
  from files0 listed(1) have [simp]: "files0 = files" by simp
  note eff = writeFile_Inr [OF wr1]
  have allowed: "\<not> writeDenied w ?doc"
    using wr1 by (auto simp: writeFile_def split: if_splits)
  have listing: "readdir w1 = readdir w"
    using eff(6) listed by (simp add: parent base fun_upd_idem)
  have after: "stat w1 ?doc = Some \<lparr>isFile = True, isDirectory = False, mtime = t1\<rparr>"
    by (simp add: eff(2))
  have exists: "pathExists w1 p = pathExists w p" for p
    using was_file(1) by (simp add: pathExists_def eff(2))
  have agree: "stat w1 p = stat w p \<and> readFile w1 p = readFile w p" if "p \<noteq> ?doc" for p
    using that by (simp add: eff(1,2))
  obtain fas2 where
    loop2: "analyzeFiles L w1 config dirPath kept = Inr (fas2, deps, ps)"
    and same: "map untimed fas2 = map untimed fas1"
    using analyzeFiles_rewritten [OF agree was_file after _ dir loop1]
    by auto
  have changes: "collectRecentChanges w1 dirPath = collectRecentChanges w dirPath"
    using exists eff(4) by (rule collectRecentChanges_cong)
  have pu1: "getDirectoryPurpose w1 dirPath = Inr pu"
    using pu by (simp add: getDirectoryPurpose_def listing)
  define a2 where
    "a2 = assembleAnalysis L config dirPath fas2 deps ps (collectRecentChanges w1 dirPath) pu"
  have docs: "specDocumentation a2 config = specDocumentation a1 config"
    unfolding a2_def a1 changes using noai same by (rule document_untimed)
  have "writable w1 ?doc"
    using allowed by (simp add: writable_def eff(3) after)
  then obtain w2 where
    wr2: "writeFile w1 ?doc (generateDocumentation L a2 config) t2 = Inr w2"
    using writeFile_succeeds by blast
  have run2: "analyzeDirectory L w1 t2 dirPath config = Inr (a2, w2)"
    using listed(1) kept loop2 pu1 a2_def wr2
    by (intro analyzeDirectory_InrI [where files = files and kept = kept]) (simp_all add: listing)
  have "readFile w1 ?doc = Some (specDocumentation a1 config)"
    by (simp add: eff(1) render)
  moreover have "readFile w2 ?doc = Some (specDocumentation a2 config)"
    using writeFile_Inr(1) [OF wr2] by (simp add: render)
  ultimately show ?thesis
    using run2 docs by auto
qed

text \<open>
  Claim C2 as stated fails on a directory that holds no document yet: the first
  analysis adds \<open>claude.md\<close> to the directory, so the second analysis, run on the
  directory exactly as the first left it, counts and ranks one file more and writes
  a different document.
\<close>

theorem fresh_directory_document_changes:
  "client exampleLibraries = None
   \<and> (case analyzeDirectory exampleLibraries loneWorld 50 ''/work/lone'' exampleConfig of
        Inl e \<Rightarrow> None
      | Inr (a1, w1) \<Rightarrow>
          (case analyzeDirectory exampleLibraries w1 60 ''/work/lone'' exampleConfig of
             Inl e \<Rightarrow> None
           | Inr (a2, w2) \<Rightarrow>
               Some (readFile w1 ''/work/lone/claude.md'' = readFile w2 ''/work/lone/claude.md'',
                     map fa_path (keyFiles a1), map fa_path (keyFiles a2),
                     purpose a1, purpose a2)))
     = Some (False, [''/work/lone/a.ts''], [''/work/lone/a.ts'', ''/work/lone/claude.md''],
             Text ''Contains 1 files related to lone'', Text ''Contains 2 files related to lone'')"
  by code_simp

lemma kept_first:
  "(case analyzeDirectory exampleLibraries keptWorld 50 ''/work/kept'' exampleConfig of
      Inl e \<Rightarrow> False | Inr r \<Rightarrow> True)"
  by code_simp

lemma kept_canonical: "canonicalDir ''/work/kept''"
  by code_simp

theorem reanalysis_reproduces_document_witness:
  "\<exists>a1 w1 a2 w2.
     analyzeDirectory exampleLibraries keptWorld 50 ''/work/kept'' exampleConfig = Inr (a1, w1)
   \<and> analyzeDirectory exampleLibraries w1 60 ''/work/kept'' exampleConfig = Inr (a2, w2)
   \<and> readFile w1 (path_join ''/work/kept'' ''claude.md'') = Some (specDocumentation a1 exampleConfig)
   \<and> readFile w2 (path_join ''/work/kept'' ''claude.md'')
       = readFile w1 (path_join ''/work/kept'' ''claude.md'')"
proof -
  obtain a1 w1 where
    first: "analyzeDirectory exampleLibraries keptWorld 50 ''/work/kept'' exampleConfig = Inr (a1, w1)"
    using kept_first
    by (cases "analyzeDirectory exampleLibraries keptWorld 50 ''/work/kept'' exampleConfig") auto
  have noai: "cfg_mode exampleConfig = Quick \<or> client exampleLibraries = None"
    by (simp add: exampleConfig_def)
  have render: "generateDocumentation exampleLibraries = specDocumentation"
    by (simp add: exampleLibraries_def)
  have listed: "readdir keptWorld ''/work/kept'' = Some [''a.ts'', ''claude.md'']"
    "''claude.md'' \<in> set [''a.ts'', ''claude.md'']"
    by (simp_all add: keptWorld_def)
  have doc: "path_join ''/work/kept'' ''claude.md'' = ''/work/kept/claude.md''"
    by code_simp
  have was_file: "stat keptWorld (path_join ''/work/kept'' ''claude.md'') = Some fileStats"
    "isFile fileStats"
    by (simp_all add: doc keptWorld_def fileStats_def)
  from reanalysis_reproduces_document [OF noai render kept_canonical listed was_file first, of 60]
  obtain a2 w2 where
    "analyzeDirectory exampleLibraries w1 60 ''/work/kept'' exampleConfig = Inr (a2, w2)"
    "readFile w1 (path_join ''/work/kept'' ''claude.md'') = Some (specDocumentation a1 exampleConfig)"
    "readFile w2 (path_join ''/work/kept'' ''claude.md'')
       = readFile w1 (path_join ''/work/kept'' ''claude.md'')"
    by blast
  with first show ?thesis by blast
qed

end
